theory Spec2Isabelle
  imports Complex_Main "HOL-Library.Sublist"
begin

section \<open>Data model\<close>

text \<open>
  The three DynamoDB tables of the ride-sharing backend (rides, drivers, connections) are
  lists of items; every item is a record with the attributes the handlers write. Ids and
  timestamps are strings, as in the source. Numbers are real numbers. What a handler takes
  from its surroundings (the clock, \<open>uuidv4()\<close>, the library function \<open>jwt.decode\<close>, the
  websocket transport) is an explicit argument.
\<close>

type_synonym timestamp = string

record point =
  lat :: real
  lng :: real

record place = point +
  address :: string

record ride =
  rideId :: string
  userId :: string
  driverId :: "string option"
  status :: string
  rideType :: string
  pickupLocation :: place
  dropoffLocation :: place
  estimatedDistance :: real
  estimatedFare :: real
  actualFare :: "real option"
  createdAt :: timestamp
  matchedAt :: "timestamp option"
  startedAt :: "timestamp option"
  completedAt :: "timestamp option"
  updatedAt :: "timestamp option"

record vehicle =
  vehicle_make :: string
  model :: string
  year :: int
  licensePlate :: string
  color :: string

text \<open>
  The key \<open>`${latGrid}_${lngGrid}`\<close> of a location bucket is kept as the pair of its two
  integers.
\<close>

type_synonym location_hash = "int \<times> int"

record driver =
  driverId :: string
  userId :: string
  licenseNumber :: string
  vehicleInfo :: vehicle
  status :: string
  rating :: real
  totalRides :: int
  isVerified :: bool
  location :: "point option"
  locationHash :: "location_hash option"
  createdAt :: timestamp
  isActive :: bool
  updatedAt :: "timestamp option"

record nearby_driver = driver +
  distance :: real

text \<open>
  A connection item may have been created by an update of a key that was never put
  (DynamoDB's \<open>UpdateItem\<close> inserts), so every attribute but the key is optional.
\<close>

record connection =
  connectionId :: string
  userId :: "string option"
  userType :: "string option"
  connectedAt :: "timestamp option"
  lastActivity :: "timestamp option"
  disconnectedAt :: "timestamp option"

datatype domain_event =
    RideRequested string string place string real
  | RideMatched string string string
  | RideStatusChanged string string string "string option" "point option"

record store =
  rides :: "ride list"
  drivers :: "driver list"
  connections :: "connection list"
  events :: "domain_event list"

datatype body =
    ErrorBody string
  | ValidationFailedBody string
  | MessageBody string
  | RideRequestedBody string string real real
  | RideAcceptedBody string string place place
  | DriverBody driver
  | DriversBody "nearby_driver list"

record response =
  statusCode :: nat
  body :: body

definition createResponse :: "nat \<Rightarrow> body \<Rightarrow> response" where
  "createResponse code b = \<lparr>statusCode = code, body = b\<rparr>"

section \<open>Shared helpers (/opt/utils)\<close>

record jwt_payload =
  sub :: "string option"
  iss :: "string option"
  aud :: "string option"
  exp :: "nat option"

text \<open>
  \<open>validateToken\<close>: the token is decoded, not verified. \<open>decode\<close> stands for
  \<open>jwt.decode\<close> of the jsonwebtoken library (\<open>None\<close> is its \<open>null\<close>); the result is
  \<open>None\<close> where the source throws.
\<close>

definition validateToken :: "(string \<Rightarrow> jwt_payload option) \<Rightarrow> string \<Rightarrow> jwt_payload option" where
  "validateToken decode token =
     (case decode token of
        None \<Rightarrow> None
      | Some decoded \<Rightarrow>
          (case sub decoded of
             None \<Rightarrow> None
           | Some s \<Rightarrow> if s = [] then None else Some decoded))"

text \<open>\<open>String.prototype.replace\<close> with a string pattern: the first occurrence only.\<close>

fun replace_first :: "string \<Rightarrow> string \<Rightarrow> string \<Rightarrow> string" where
  "replace_first pat rep [] = (if pat = [] then rep else [])"
| "replace_first pat rep (c # cs) =
     (if prefix pat (c # cs) then rep @ drop (length pat) (c # cs)
      else c # replace_first pat rep cs)"

text \<open>
  The first four lines of every authenticated handler: the header (\<open>None\<close> when neither
  \<open>Authorization\<close> nor \<open>authorization\<close> is set, where \<open>replace\<close> throws), the token, the
  decoded payload and its \<open>sub\<close>.
\<close>

definition caller :: "(string \<Rightarrow> jwt_payload option) \<Rightarrow> string option \<Rightarrow> string option" where
  "caller decode authHeader =
     (case authHeader of
        None \<Rightarrow> None
      | Some h \<Rightarrow>
          (case validateToken decode (replace_first ''Bearer '' [] h) of
             None \<Rightarrow> None
           | Some decodedToken \<Rightarrow> sub decodedToken))"

definition dbGet_ride :: "ride list \<Rightarrow> string \<Rightarrow> ride option" where
  "dbGet_ride tbl k = find (\<lambda>r. rideId r = k) tbl"

definition dbPut_ride :: "ride list \<Rightarrow> ride \<Rightarrow> ride list" where
  "dbPut_ride tbl item =
     (case dbGet_ride tbl (rideId item) of
        None \<Rightarrow> tbl @ [item]
      | Some _ \<Rightarrow> map (\<lambda>r. if rideId r = rideId item then item else r) tbl)"

text \<open>
  \<open>dbUpdate\<close> with a \<open>SET\<close> expression on an item that is there. The handlers update a
  ride only after they have read it, and no handler deletes an item.
\<close>

definition dbUpdate_ride :: "ride list \<Rightarrow> string \<Rightarrow> (ride \<Rightarrow> ride) \<Rightarrow> ride list" where
  "dbUpdate_ride tbl k f = map (\<lambda>r. if rideId r = k then f r else r) tbl"

definition dbGet_driver :: "driver list \<Rightarrow> string \<Rightarrow> driver option" where
  "dbGet_driver tbl k = find (\<lambda>d. driver.driverId d = k) tbl"

definition dbUpdate_driver :: "driver list \<Rightarrow> string \<Rightarrow> (driver \<Rightarrow> driver) \<Rightarrow> driver list" where
  "dbUpdate_driver tbl k f = map (\<lambda>d. if driver.driverId d = k then f d else d) tbl"

definition publishEvent :: "domain_event \<Rightarrow> store \<Rightarrow> store" where
  "publishEvent e st = st\<lparr>events := events st @ [e]\<rparr>"

definition internal_error :: response where
  "internal_error = createResponse 500 (ErrorBody ''Internal server error'')"

section \<open>Ride service\<close>

text \<open>The haversine formula. \<open>Math.atan2\<close> on its whole domain.\<close>

definition atan2 :: "real \<Rightarrow> real \<Rightarrow> real" where
  "atan2 y x =
     (if 0 < x then arctan (y / x)
      else if x < 0 \<and> 0 \<le> y then arctan (y / x) + pi
      else if x < 0 \<and> y < 0 then arctan (y / x) - pi
      else if 0 < y then pi / 2
      else if y < 0 then - (pi / 2)
      else 0)"

definition calculateDistance :: "real \<Rightarrow> real \<Rightarrow> real \<Rightarrow> real \<Rightarrow> real" where
  "calculateDistance lat1 lon1 lat2 lon2 =
     (let R = 6371;
          dLat = (lat2 - lat1) * pi / 180;
          dLon = (lon2 - lon1) * pi / 180;
          a = sin (dLat / 2) * sin (dLat / 2) +
              cos (lat1 * pi / 180) * cos (lat2 * pi / 180) *
              sin (dLon / 2) * sin (dLon / 2);
          c = 2 * atan2 (sqrt a) (sqrt (1 - a))
      in R * c)"

definition perKmRate :: "string \<Rightarrow> real option" where
  "perKmRate t =
     (if t = ''standard'' then Some 1.20
      else if t = ''premium'' then Some 2.00
      else if t = ''pool'' then Some 0.80
      else None)"

definition calculateEstimatedFare :: "real \<Rightarrow> string \<Rightarrow> real" where
  "calculateEstimatedFare distanceKm t =
     (let baseFare = 2.50
      in baseFare + distanceKm * (case perKmRate t of Some r \<Rightarrow> r | None \<Rightarrow> 1.20))"

text \<open>
  The request body after \<open>JSON.parse\<close>, and \<open>schemas.ride.validate\<close>: both locations are
  required, with a latitude in [-90, 90], a longitude in [-180, 180] and an address
  (\<open>Joi.string().required()\<close> refuses the empty string); the ride type is one of three and
  defaults to \<open>standard\<close>. The result is the failing key or the validated value.
\<close>

record ride_request =
  req_pickupLocation :: "place option"
  req_dropoffLocation :: "place option"
  req_rideType :: "string option"

definition validate_place :: "string \<Rightarrow> place option \<Rightarrow> string + place" where
  "validate_place key v =
     (case v of
        None \<Rightarrow> Inl key
      | Some p \<Rightarrow>
          if \<not> (-90 \<le> lat p \<and> lat p \<le> 90) then Inl (key @ ''.lat'')
          else if \<not> (-180 \<le> lng p \<and> lng p \<le> 180) then Inl (key @ ''.lng'')
          else if address p = [] then Inl (key @ ''.address'')
          else Inr p)"

definition validate_ride :: "ride_request \<Rightarrow> string + (place \<times> place \<times> string)" where
  "validate_ride b =
     (case validate_place ''pickupLocation'' (req_pickupLocation b) of
        Inl e \<Rightarrow> Inl e
      | Inr pickup \<Rightarrow>
          (case validate_place ''dropoffLocation'' (req_dropoffLocation b) of
             Inl e \<Rightarrow> Inl e
           | Inr dropoff \<Rightarrow>
               (case req_rideType b of
                  None \<Rightarrow> Inr (pickup, dropoff, ''standard'')
                | Some t \<Rightarrow>
                    if t \<in> set [''standard'', ''premium'', ''pool'']
                    then Inr (pickup, dropoff, t)
                    else Inl ''rideType'')))"

text \<open>
  The query on \<open>UserRidesIndex\<close> (hash key \<open>userId\<close>, range key \<open>status\<close>) with
  \<open>userId = :userId AND #status = :status\<close>.
\<close>

definition query_UserRidesIndex :: "ride list \<Rightarrow> string \<Rightarrow> string \<Rightarrow> ride list" where
  "query_UserRidesIndex tbl u s = filter (\<lambda>r. ride.userId r = u \<and> ride.status r = s) tbl"

definition requestRide ::
  "(string \<Rightarrow> jwt_payload option) \<Rightarrow> timestamp \<Rightarrow> string \<Rightarrow> string option \<Rightarrow>
   ride_request option \<Rightarrow> store \<Rightarrow> store \<times> response" where
  "requestRide decode now uuid authHeader reqBody st =
     (case caller decode authHeader of
        None \<Rightarrow> (st, internal_error)
      | Some uid \<Rightarrow>
          (case reqBody of
             None \<Rightarrow> (st, internal_error)
           | Some b \<Rightarrow>
               (case validate_ride b of
                  Inl details \<Rightarrow> (st, createResponse 400 (ValidationFailedBody details))
                | Inr (pickup, dropoff, rtype) \<Rightarrow>
                    if query_UserRidesIndex (rides st) uid ''active'' \<noteq> []
                    then (st, createResponse 409 (ErrorBody ''You already have an active ride request''))
                    else
                      let dist = calculateDistance (lat pickup) (lng pickup) (lat dropoff) (lng dropoff);
                          fare = calculateEstimatedFare dist rtype;
                          r = \<lparr>rideId = uuid, userId = uid, driverId = None,
                               status = ''requested'', rideType = rtype,
                               pickupLocation = pickup, dropoffLocation = dropoff,
                               estimatedDistance = dist, estimatedFare = fare,
                               actualFare = None, createdAt = now, matchedAt = None,
                               startedAt = None, completedAt = None, updatedAt = None\<rparr>;
                          st1 = st\<lparr>rides := dbPut_ride (rides st) r\<rparr>;
                          st2 = publishEvent (RideRequested uuid uid pickup rtype fare) st1
                      in (st2, createResponse 201
                                 (RideRequestedBody uuid ''requested'' fare dist)))))"

definition acceptRide ::
  "(string \<Rightarrow> jwt_payload option) \<Rightarrow> timestamp \<Rightarrow> string option \<Rightarrow> string \<Rightarrow>
   store \<Rightarrow> store \<times> response" where
  "acceptRide decode now authHeader rid st =
     (case caller decode authHeader of
        None \<Rightarrow> (st, internal_error)
      | Some did \<Rightarrow>
          (case dbGet_ride (rides st) rid of
             None \<Rightarrow> (st, createResponse 404 (ErrorBody ''Ride not found''))
           | Some r \<Rightarrow>
               if ride.status r \<noteq> ''requested''
               then (st, createResponse 409 (ErrorBody ''Ride is no longer available''))
               else
                 (case dbGet_driver (drivers st) did of
                    None \<Rightarrow> (st, createResponse 409 (ErrorBody ''Driver is not available''))
                  | Some d \<Rightarrow>
                      if driver.status d \<noteq> ''available''
                      then (st, createResponse 409 (ErrorBody ''Driver is not available''))
                      else
                        let st1 = st\<lparr>rides := dbUpdate_ride (rides st) rid
                                    (\<lambda>x. x\<lparr>ride.driverId := Some did, ride.status := ''matched'',
                                           matchedAt := Some now\<rparr>)\<rparr>;
                            st2 = st1\<lparr>drivers := dbUpdate_driver (drivers st1) did
                                    (\<lambda>x. x\<lparr>driver.status := ''busy'',
                                           driver.updatedAt := Some now\<rparr>)\<rparr>;
                            st3 = publishEvent (RideMatched rid did (ride.userId r)) st2
                        in (st3, createResponse 200
                                   (RideAcceptedBody rid (ride.userId r)
                                      (pickupLocation r) (dropoffLocation r))))))"

record status_update =
  new_status :: string
  new_location :: "point option"

definition validStatuses :: "string list" where
  "validStatuses = [''en-route'', ''arrived'', ''in-progress'', ''completed'', ''cancelled'']"

text \<open>The \<open>updates\<close> object of \<open>updateRideStatus\<close>, applied to the stored item.\<close>

definition status_updates :: "timestamp \<Rightarrow> string \<Rightarrow> ride \<Rightarrow> ride \<Rightarrow> ride" where
  "status_updates now s r x =
     (let x1 = x\<lparr>ride.status := s, ride.updatedAt := Some now\<rparr>
      in if s = ''in-progress'' then x1\<lparr>startedAt := Some now\<rparr>
         else if s = ''completed'' then
           (let x2 = x1\<lparr>completedAt := Some now\<rparr>
            in if actualFare r = None \<or> actualFare r = Some 0
               then x2\<lparr>actualFare := Some (estimatedFare r)\<rparr> else x2)
         else x1)"

text \<open>
  The driver whose record \<open>updateRideStatus\<close> updates after the ride:
  \<open>status === 'completed' && ride.driverId\<close>.
\<close>

definition completed_driver :: "string \<Rightarrow> ride \<Rightarrow> string option" where
  "completed_driver s r =
     (case ride.driverId r of
        None \<Rightarrow> None
      | Some did \<Rightarrow> if s = ''completed'' \<and> did \<noteq> [] then Some did else None)"

text \<open>
  The update of the driver's record adds to \<open>totalRides\<close>; on a key with no item DynamoDB
  refuses the expression, the handler's \<open>catch\<close> answers 500, and the ride stays updated.
\<close>

definition updateRideStatus ::
  "(string \<Rightarrow> jwt_payload option) \<Rightarrow> timestamp \<Rightarrow> string option \<Rightarrow> string \<Rightarrow>
   status_update option \<Rightarrow> store \<Rightarrow> store \<times> response" where
  "updateRideStatus decode now authHeader rid reqBody st =
     (case caller decode authHeader of
        None \<Rightarrow> (st, internal_error)
      | Some uid \<Rightarrow>
          (case reqBody of
             None \<Rightarrow> (st, internal_error)
           | Some b \<Rightarrow>
               if new_status b \<notin> set validStatuses
               then (st, createResponse 400 (ErrorBody
                      ''Invalid status. Must be one of: en-route, arrived, in-progress, completed, cancelled''))
               else
                 (case dbGet_ride (rides st) rid of
                    None \<Rightarrow> (st, createResponse 404 (ErrorBody ''Ride not found''))
                  | Some r \<Rightarrow>
                      if ride.userId r \<noteq> uid \<and> ride.driverId r \<noteq> Some uid
                      then (st, createResponse 403 (ErrorBody ''Unauthorized to update this ride''))
                      else
                        let st1 = st\<lparr>rides := dbUpdate_ride (rides st) rid
                                    (status_updates now (new_status b) r)\<rparr>;
                            ev = RideStatusChanged rid (new_status b) (ride.userId r)
                                   (ride.driverId r) (new_location b);
                            ok = createResponse 200 (MessageBody ''Ride status updated successfully'')
                        in (case completed_driver (new_status b) r of
                              None \<Rightarrow> (publishEvent ev st1, ok)
                            | Some did \<Rightarrow>
                                (case dbGet_driver (drivers st1) did of
                                   None \<Rightarrow> (st1, internal_error)
                                 | Some d \<Rightarrow>
                                     (publishEvent ev
                                        (st1\<lparr>drivers := dbUpdate_driver (drivers st1) did
                                                (\<lambda>x. x\<lparr>driver.status := ''available'',
                                                       totalRides := totalRides x + 1,
                                                       driver.updatedAt := Some now\<rparr>)\<rparr>),
                                      ok))))))"

subsection \<open>Concurrent calls of \<open>acceptRide\<close>\<close>

text \<open>
  Every invocation of a handler runs on its own; the invocations share the tables only.
  Between two \<open>await\<close>s a call runs alone, and each awaited DynamoDB operation is atomic.
  The state of a call of \<open>acceptRide\<close> is the \<open>await\<close> it stands before, with what it has
  read so far.
\<close>

datatype accept_call =
    GetRide string string
  | GetDriver string string ride
  | UpdateRide string string ride
  | UpdateDriver string string ride
  | PublishMatched string string ride
  | Returned response

definition accept_begin ::
  "(string \<Rightarrow> jwt_payload option) \<Rightarrow> string option \<Rightarrow> string \<Rightarrow> accept_call" where
  "accept_begin decode authHeader rid =
     (case caller decode authHeader of
        None \<Rightarrow> Returned internal_error
      | Some did \<Rightarrow> GetRide did rid)"

fun accept_step :: "timestamp \<Rightarrow> accept_call \<times> store \<Rightarrow> accept_call \<times> store" where
  "accept_step now (GetRide did rid, st) =
     (case dbGet_ride (rides st) rid of
        None \<Rightarrow> (Returned (createResponse 404 (ErrorBody ''Ride not found'')), st)
      | Some r \<Rightarrow>
          if ride.status r \<noteq> ''requested''
          then (Returned (createResponse 409 (ErrorBody ''Ride is no longer available'')), st)
          else (GetDriver did rid r, st))"
| "accept_step now (GetDriver did rid r, st) =
     (case dbGet_driver (drivers st) did of
        None \<Rightarrow> (Returned (createResponse 409 (ErrorBody ''Driver is not available'')), st)
      | Some d \<Rightarrow>
          if driver.status d \<noteq> ''available''
          then (Returned (createResponse 409 (ErrorBody ''Driver is not available'')), st)
          else (UpdateRide did rid r, st))"
| "accept_step now (UpdateRide did rid r, st) =
     (UpdateDriver did rid r,
      st\<lparr>rides := dbUpdate_ride (rides st) rid
            (\<lambda>x. x\<lparr>ride.driverId := Some did, ride.status := ''matched'',
                   matchedAt := Some now\<rparr>)\<rparr>)"
| "accept_step now (UpdateDriver did rid r, st) =
     (PublishMatched did rid r,
      st\<lparr>drivers := dbUpdate_driver (drivers st) did
            (\<lambda>x. x\<lparr>driver.status := ''busy'', driver.updatedAt := Some now\<rparr>)\<rparr>)"
| "accept_step now (PublishMatched did rid r, st) =
     (Returned (createResponse 200
        (RideAcceptedBody rid (ride.userId r) (pickupLocation r) (dropoffLocation r))),
      publishEvent (RideMatched rid did (ride.userId r)) st)"
| "accept_step now (Returned resp, st) = (Returned resp, st)"

text \<open>
  A schedule names, step by step, the call that runs to its next \<open>await\<close>.
\<close>

definition schedule_step ::
  "timestamp \<Rightarrow> nat \<Rightarrow> accept_call list \<times> store \<Rightarrow> accept_call list \<times> store" where
  "schedule_step now i cfg =
     (case cfg of (calls, st) \<Rightarrow>
        if i < length calls
        then (case accept_step now (calls ! i, st) of (c, st') \<Rightarrow> (calls[i := c], st'))
        else (calls, st))"

definition run_schedule ::
  "timestamp \<Rightarrow> nat list \<Rightarrow> accept_call list \<times> store \<Rightarrow> accept_call list \<times> store" where
  "run_schedule now sched cfg = fold (schedule_step now) sched cfg"

text \<open>The status code of a call that has returned.\<close>

definition returned_status :: "accept_call \<Rightarrow> nat option" where
  "returned_status c = (case c of Returned resp \<Rightarrow> Some (statusCode resp) | _ \<Rightarrow> None)"

subsection \<open>Calls of \<open>requestRide\<close> and \<open>updateRideStatus\<close>, await by await\<close>

text \<open>
  The other two handlers of the ride service in the same way. A call of \<open>requestRide\<close>
  awaits the query for active rides, the put of the new ride and the event; what lies
  between the query and the put (distance, fare, id, the item) reads no table.
\<close>

datatype request_call =
    QueryActive string place place string
  | PutRide string place place string
  | PublishRequested ride
  | RequestReturned response

definition request_begin ::
  "(string \<Rightarrow> jwt_payload option) \<Rightarrow> string option \<Rightarrow> ride_request option \<Rightarrow> request_call" where
  "request_begin decode authHeader reqBody =
     (case caller decode authHeader of
        None \<Rightarrow> RequestReturned internal_error
      | Some uid \<Rightarrow>
          (case reqBody of
             None \<Rightarrow> RequestReturned internal_error
           | Some b \<Rightarrow>
               (case validate_ride b of
                  Inl details \<Rightarrow> RequestReturned (createResponse 400 (ValidationFailedBody details))
                | Inr (pickup, dropoff, rtype) \<Rightarrow> QueryActive uid pickup dropoff rtype)))"

fun request_step ::
  "timestamp \<Rightarrow> string \<Rightarrow> request_call \<times> store \<Rightarrow> request_call \<times> store" where
  "request_step now uuid (QueryActive uid pickup dropoff rtype, st) =
     (if query_UserRidesIndex (rides st) uid ''active'' \<noteq> []
      then (RequestReturned
              (createResponse 409 (ErrorBody ''You already have an active ride request'')), st)
      else (PutRide uid pickup dropoff rtype, st))"
| "request_step now uuid (PutRide uid pickup dropoff rtype, st) =
     (let dist = calculateDistance (lat pickup) (lng pickup) (lat dropoff) (lng dropoff);
          fare = calculateEstimatedFare dist rtype;
          r = \<lparr>rideId = uuid, userId = uid, driverId = None,
               status = ''requested'', rideType = rtype,
               pickupLocation = pickup, dropoffLocation = dropoff,
               estimatedDistance = dist, estimatedFare = fare,
               actualFare = None, createdAt = now, matchedAt = None,
               startedAt = None, completedAt = None, updatedAt = None\<rparr>
      in (PublishRequested r, st\<lparr>rides := dbPut_ride (rides st) r\<rparr>))"
| "request_step now uuid (PublishRequested r, st) =
     (RequestReturned
        (createResponse 201
           (RideRequestedBody (rideId r) (ride.status r) (estimatedFare r) (estimatedDistance r))),
      publishEvent
        (RideRequested (rideId r) (ride.userId r) (pickupLocation r) (rideType r) (estimatedFare r))
        st)"
| "request_step now uuid (RequestReturned resp, st) = (RequestReturned resp, st)"

text \<open>
  A call of \<open>updateRideStatus\<close> awaits the read of the ride, the update of the ride, the
  update of the driver's record when the target is \<open>completed\<close> and the ride has a driver,
  and the event. The update is built from the ride as it was read.
\<close>

datatype update_call =
    ReadRide string string status_update
  | WriteRide string status_update ride
  | WriteDriver string string status_update ride
  | PublishChanged string status_update ride
  | UpdateReturned response

definition update_begin ::
  "(string \<Rightarrow> jwt_payload option) \<Rightarrow> string option \<Rightarrow> string \<Rightarrow> status_update option \<Rightarrow>
   update_call" where
  "update_begin decode authHeader rid reqBody =
     (case caller decode authHeader of
        None \<Rightarrow> UpdateReturned internal_error
      | Some uid \<Rightarrow>
          (case reqBody of
             None \<Rightarrow> UpdateReturned internal_error
           | Some b \<Rightarrow>
               if new_status b \<notin> set validStatuses
               then UpdateReturned (createResponse 400 (ErrorBody
                      ''Invalid status. Must be one of: en-route, arrived, in-progress, completed, cancelled''))
               else ReadRide uid rid b))"

fun update_step :: "timestamp \<Rightarrow> update_call \<times> store \<Rightarrow> update_call \<times> store" where
  "update_step now (ReadRide uid rid b, st) =
     (case dbGet_ride (rides st) rid of
        None \<Rightarrow> (UpdateReturned (createResponse 404 (ErrorBody ''Ride not found'')), st)
      | Some r \<Rightarrow>
          if ride.userId r \<noteq> uid \<and> ride.driverId r \<noteq> Some uid
          then (UpdateReturned
                  (createResponse 403 (ErrorBody ''Unauthorized to update this ride'')), st)
          else (WriteRide rid b r, st))"
| "update_step now (WriteRide rid b r, st) =
     ((case completed_driver (new_status b) r of
         None \<Rightarrow> PublishChanged rid b r
       | Some did \<Rightarrow> WriteDriver did rid b r),
      st\<lparr>rides := dbUpdate_ride (rides st) rid (status_updates now (new_status b) r)\<rparr>)"
| "update_step now (WriteDriver did rid b r, st) =
     (case dbGet_driver (drivers st) did of
        None \<Rightarrow> (UpdateReturned internal_error, st)
      | Some d \<Rightarrow>
          (PublishChanged rid b r,
           st\<lparr>drivers := dbUpdate_driver (drivers st) did
                 (\<lambda>x. x\<lparr>driver.status := ''available'', totalRides := totalRides x + 1,
                        driver.updatedAt := Some now\<rparr>)\<rparr>))"
| "update_step now (PublishChanged rid b r, st) =
     (UpdateReturned (createResponse 200 (MessageBody ''Ride status updated successfully'')),
      publishEvent
        (RideStatusChanged rid (new_status b) (ride.userId r) (ride.driverId r) (new_location b))
        st)"
| "update_step now (UpdateReturned resp, st) = (UpdateReturned resp, st)"


subsection \<open>What is stored for a ride and for a driver\<close>

definition ride_state :: "store \<Rightarrow> string \<Rightarrow> (string \<times> string option) option" where
  "ride_state st k = map_option (\<lambda>r. (ride.status r, ride.driverId r)) (dbGet_ride (rides st) k)"


definition driver_status :: "store \<Rightarrow> string \<Rightarrow> string option" where
  "driver_status st k = map_option driver.status (dbGet_driver (drivers st) k)"

subsection \<open>The ride states the three handlers reach\<close>

inductive reachable :: "store \<Rightarrow> bool" where
  initial: "rides st = [] \<Longrightarrow> reachable st"
| request: "reachable st \<Longrightarrow> reachable (fst (requestRide decode now uuid authHeader reqBody st))"
| accept: "reachable st \<Longrightarrow> reachable (fst (acceptRide decode now authHeader rid st))"
| update: "reachable st \<Longrightarrow> reachable (fst (updateRideStatus decode now authHeader rid upd st))"

section \<open>Driver service\<close>

definition generateLocationHash :: "real \<Rightarrow> real \<Rightarrow> location_hash" where
  "generateLocationHash la lo =
     (let latGrid = \<lfloor>la * 100\<rfloor>; lngGrid = \<lfloor>lo * 100\<rfloor> in (latGrid, lngGrid))"

text \<open>\<open>Set.prototype.add\<close>: a set keeps its members in the order of their first insertion.\<close>

definition set_add :: "'a list \<Rightarrow> 'a \<Rightarrow> 'a list" where
  "set_add s x = (if x \<in> set s then s else s @ [x])"

definition generateNearbyLocationHashes :: "real \<Rightarrow> real \<Rightarrow> real \<Rightarrow> location_hash list" where
  "generateNearbyLocationHashes la lo radiusKm =
     (let gridSize = 0.01;
          steps = \<lceil>radiusKm / 111.32\<rceil>
      in fold (\<lambda>i hashes.
           fold (\<lambda>j hashes.
             let testLat = la + of_int i * gridSize;
                 testLng = lo + of_int j * gridSize
             in set_add hashes (generateLocationHash testLat testLng))
             [- steps .. steps] hashes)
           [- steps .. steps] [])"

text \<open>
  The query on \<open>LocationIndex\<close> (hash key \<open>locationHash\<close>) with the filter
  \<open>#status = :status AND isActive = :isActive\<close>.
\<close>

definition query_LocationIndex :: "driver list \<Rightarrow> location_hash \<Rightarrow> driver list" where
  "query_LocationIndex tbl h =
     filter (\<lambda>d. locationHash d = Some h \<and> driver.status d = ''available'' \<and> isActive d) tbl"

definition within_radius :: "real \<Rightarrow> real \<Rightarrow> real \<Rightarrow> driver \<Rightarrow> bool" where
  "within_radius latitude longitude radius d =
     (case location d of
        None \<Rightarrow> False
      | Some l \<Rightarrow> calculateDistance latitude longitude (lat l) (lng l) \<le> radius)"

text \<open>
  The candidates of the bucket stage: the items the queries of the hashes return, before
  the filter by distance.
\<close>

definition bucket_candidates :: "driver list \<Rightarrow> real \<Rightarrow> real \<Rightarrow> real \<Rightarrow> driver list" where
  "bucket_candidates tbl latitude longitude radius =
     concat (map (query_LocationIndex tbl) (generateNearbyLocationHashes latitude longitude radius))"

definition nearbyDrivers :: "driver list \<Rightarrow> real \<Rightarrow> real \<Rightarrow> real \<Rightarrow> driver list" where
  "nearbyDrivers tbl latitude longitude radius =
     concat (map (\<lambda>h. filter (within_radius latitude longitude radius) (query_LocationIndex tbl h))
                 (generateNearbyLocationHashes latitude longitude radius))"

text \<open>
  \<open>{...driver, distance: ...}\<close>: the whole item and its distance; reading the
  coordinates of a missing location throws.
\<close>

definition with_distance :: "real \<Rightarrow> real \<Rightarrow> driver \<Rightarrow> nearby_driver option" where
  "with_distance latitude longitude d =
     (case location d of
        None \<Rightarrow> None
      | Some l \<Rightarrow>
          Some (driver.extend d
                  (nearby_driver.fields (calculateDistance latitude longitude (lat l) (lng l)))))"

definition score :: "nearby_driver \<Rightarrow> real" where
  "score a = rating a * 0.3 - distance a * 0.7"

text \<open>
  \<open>Array.prototype.sort\<close> is stable; the comparator \<open>scoreB - scoreA\<close> puts the higher
  score first.
\<close>

definition sortedDrivers :: "nearby_driver list \<Rightarrow> nearby_driver list" where
  "sortedDrivers xs = take 10 (sort_key (\<lambda>a. - score a) xs)"

text \<open>
  \<open>lat\<close>, \<open>lng\<close> and \<open>radius\<close> are the query string parameters as \<open>parseFloat\<close> and the
  arithmetic read them; \<open>None\<close> is a missing parameter.
\<close>

definition getNearbyDrivers ::
  "real option \<Rightarrow> real option \<Rightarrow> real option \<Rightarrow> store \<Rightarrow> response" where
  "getNearbyDrivers qlat qlng qradius st =
     (case (qlat, qlng) of
        (Some latitude, Some longitude) \<Rightarrow>
          (let radius = (case qradius of None \<Rightarrow> 5 | Some r \<Rightarrow> r)
           in case those (map (with_distance latitude longitude)
                              (nearbyDrivers (drivers st) latitude longitude radius)) of
                None \<Rightarrow> internal_error
              | Some ds \<Rightarrow> createResponse 200 (DriversBody (sortedDrivers ds)))
      | _ \<Rightarrow> createResponse 400 (ErrorBody ''Latitude and longitude are required''))"

text \<open>\<open>s.slice(-4)\<close>: the last four characters, or all of a shorter string.\<close>

definition slice_last4 :: "string \<Rightarrow> string" where
  "slice_last4 s = drop (length s - 4) s"

definition getDriverProfile ::
  "(string \<Rightarrow> jwt_payload option) \<Rightarrow> string option \<Rightarrow> store \<Rightarrow> response" where
  "getDriverProfile decode authHeader st =
     (case caller decode authHeader of
        None \<Rightarrow> internal_error
      | Some did \<Rightarrow>
          (case dbGet_driver (drivers st) did of
             None \<Rightarrow> createResponse 404 (ErrorBody ''Driver not found'')
           | Some d \<Rightarrow>
               createResponse 200
                 (DriverBody (d\<lparr>licenseNumber := ''***'' @ slice_last4 (licenseNumber d)\<rparr>))))"

section \<open>Websocket service\<close>

datatype push_result = Delivered | Gone | TransientError

datatype ws_out =
    LocationUpdateOut string "string option" "point option" timestamp
  | RideStatusOut string "string option" "string option" timestamp
  | Pong

record ws_data =
  data_userId :: "string option"
  data_location :: "point option"
  data_rideId :: "string option"
  data_status :: "string option"
  data_message :: "string option"

record ws_body =
  action :: string
  data :: "ws_data option"

definition dbGet_connection :: "connection list \<Rightarrow> string \<Rightarrow> connection option" where
  "dbGet_connection tbl k = find (\<lambda>c. connectionId c = k) tbl"

definition dbPut_connection :: "connection list \<Rightarrow> connection \<Rightarrow> connection list" where
  "dbPut_connection tbl item =
     (case dbGet_connection tbl (connectionId item) of
        None \<Rightarrow> tbl @ [item]
      | Some _ \<Rightarrow> map (\<lambda>c. if connectionId c = connectionId item then item else c) tbl)"

text \<open>
  \<open>dbUpdate\<close> on the connections table: \<open>UpdateItem\<close> changes the item of the key, and
  inserts an item that has the key and the attributes set when there is none.
\<close>

definition dbUpdate_connection ::
  "connection list \<Rightarrow> string \<Rightarrow> (connection \<Rightarrow> connection) \<Rightarrow> connection list" where
  "dbUpdate_connection tbl k f =
     (case dbGet_connection tbl k of
        None \<Rightarrow>
          tbl @ [f \<lparr>connectionId = k, userId = None, userType = None, connectedAt = None,
                    lastActivity = None, disconnectedAt = None\<rparr>]
      | Some _ \<Rightarrow> map (\<lambda>c. if connectionId c = k then f c else c) tbl)"

text \<open>
  \<open>connect\<close>: \<open>userId\<close> and \<open>userType\<close> are query string parameters, missing or empty
  ones are refused.
\<close>

definition connect ::
  "timestamp \<Rightarrow> string \<Rightarrow> string option \<Rightarrow> string option \<Rightarrow> store \<Rightarrow> store \<times> response" where
  "connect now cid quserId quserType st =
     (if quserId = None \<or> quserId = Some [] \<or> quserType = None \<or> quserType = Some []
      then (st, createResponse 400 (ErrorBody ''Missing required parameters''))
      else
        (st\<lparr>connections := dbPut_connection (connections st)
               \<lparr>connectionId = cid, userId = quserId, userType = quserType,
                connectedAt = Some now, lastActivity = Some now, disconnectedAt = None\<rparr>\<rparr>,
         createResponse 200 (MessageBody ''Connected successfully'')))"

definition disconnect :: "timestamp \<Rightarrow> string \<Rightarrow> store \<Rightarrow> store \<times> response" where
  "disconnect now cid st =
     (st\<lparr>connections := dbUpdate_connection (connections st) cid
            (\<lambda>c. c\<lparr>disconnectedAt := Some now\<rparr>)\<rparr>,
      createResponse 200 (MessageBody ''Disconnected successfully''))"

text \<open>
  \<open>getUserConnections\<close>: the query on \<open>UserConnectionsIndex\<close> with the filter
  \<open>attribute_not_exists(disconnectedAt)\<close>. A \<open>null\<close> user id (\<open>None\<close>) is no value of the
  index key: the query fails and the \<open>catch\<close> returns the empty list.
\<close>

definition getUserConnections :: "connection list \<Rightarrow> string option \<Rightarrow> connection list" where
  "getUserConnections tbl target =
     (case target of
        None \<Rightarrow> []
      | Some u \<Rightarrow> filter (\<lambda>c. connection.userId c = Some u \<and> disconnectedAt c = None) tbl)"

text \<open>
  \<open>sendMessageToConnection\<close>: \<open>push\<close> is what \<open>postToConnection\<close> answers for a
  connection id (status 410 or 403 is \<open>Gone\<close>). The state is the connections table and
  the log of the posts made.
\<close>

type_synonym fanout_state = "connection list \<times> (string \<times> ws_out) list"

definition sendMessageToConnection ::
  "(string \<Rightarrow> push_result) \<Rightarrow> timestamp \<Rightarrow> string \<Rightarrow> ws_out \<Rightarrow> fanout_state \<Rightarrow> fanout_state" where
  "sendMessageToConnection push now cid msg fs =
     (case fs of (tbl, posts) \<Rightarrow>
        (case push cid of
           Gone \<Rightarrow> (dbUpdate_connection tbl cid (\<lambda>c. c\<lparr>disconnectedAt := Some now\<rparr>),
                    posts @ [(cid, msg)])
         | _ \<Rightarrow> (tbl, posts @ [(cid, msg)])))"

text \<open>
  The two nested loops of both handlers: for every target user, the live connections are
  read, then the message is posted to each of them.
\<close>

definition send_to_targets ::
  "(string \<Rightarrow> push_result) \<Rightarrow> timestamp \<Rightarrow> ws_out \<Rightarrow> string option list \<Rightarrow>
   fanout_state \<Rightarrow> fanout_state" where
  "send_to_targets push now msg targetUsers fs =
     fold (\<lambda>targetUserId fs.
             fold (\<lambda>c. sendMessageToConnection push now (connectionId c) msg)
                  (getUserConnections (fst fs) targetUserId) fs)
          targetUsers fs"

text \<open>
  \<open>handleLocationUpdate\<close>. In \<open>id !== userId\<close> the \<open>userId\<close> is the one of the message; a
  missing one is \<open>None\<close>, as the \<open>null\<close> driver of an unmatched ride is.
\<close>

definition handleLocationUpdate ::
  "(string \<Rightarrow> push_result) \<Rightarrow> timestamp \<Rightarrow> ride list \<Rightarrow> string \<Rightarrow> ws_data \<Rightarrow>
   fanout_state \<Rightarrow> fanout_state" where
  "handleLocationUpdate push now rideTbl cid locationData fs =
     (case data_rideId locationData of
        None \<Rightarrow> fs
      | Some rid \<Rightarrow>
          if rid = [] then fs
          else
            (case dbGet_ride rideTbl rid of
               None \<Rightarrow> fs
             | Some r \<Rightarrow>
                 let targetUsers = filter (\<lambda>i. i \<noteq> data_userId locationData)
                                     [Some (ride.userId r), ride.driverId r]
                 in send_to_targets push now
                      (LocationUpdateOut rid (data_userId locationData)
                         (data_location locationData) now)
                      targetUsers fs))"

text \<open>
  \<open>handleRideStatusUpdate\<close>; \<open>dbGet\<close> with no ride id fails, which the \<open>catch\<close> logs.
\<close>

definition handleRideStatusUpdate ::
  "(string \<Rightarrow> push_result) \<Rightarrow> timestamp \<Rightarrow> ride list \<Rightarrow> string \<Rightarrow> ws_data \<Rightarrow>
   fanout_state \<Rightarrow> fanout_state" where
  "handleRideStatusUpdate push now rideTbl cid statusData fs =
     (case data_rideId statusData of
        None \<Rightarrow> fs
      | Some rid \<Rightarrow>
          (case dbGet_ride rideTbl rid of
             None \<Rightarrow> fs
           | Some r \<Rightarrow>
               let targetUsers = [Some (ride.userId r), ride.driverId r]
               in send_to_targets push now
                    (RideStatusOut rid (data_status statusData) (data_message statusData) now)
                    targetUsers fs))"

text \<open>
  \<open>message\<close>: the body after \<open>JSON.parse\<close> (\<open>None\<close> when it throws). The result is the
  store, the posts made and the response. Taking the fields of a missing \<open>data\<close> throws.
\<close>

definition message ::
  "(string \<Rightarrow> push_result) \<Rightarrow> timestamp \<Rightarrow> string \<Rightarrow> ws_body option \<Rightarrow> store \<Rightarrow>
   store \<times> (string \<times> ws_out) list \<times> response" where
  "message push now cid reqBody st =
     (case reqBody of
        None \<Rightarrow> (st, [], createResponse 500 (ErrorBody ''Failed to process message''))
      | Some b \<Rightarrow>
          let tbl = dbUpdate_connection (connections st) cid (\<lambda>c. c\<lparr>lastActivity := Some now\<rparr>);
              failed = createResponse 500 (ErrorBody ''Failed to process message'');
              processed = createResponse 200 (MessageBody ''Message processed'')
          in if action b = ''location_update'' then
               (case data b of
                  None \<Rightarrow> (st\<lparr>connections := tbl\<rparr>, [], failed)
                | Some d \<Rightarrow>
                    (case handleLocationUpdate push now (rides st) cid d (tbl, []) of
                       (tbl', posts) \<Rightarrow> (st\<lparr>connections := tbl'\<rparr>, posts, processed)))
             else if action b = ''ride_status_update'' then
               (case data b of
                  None \<Rightarrow> (st\<lparr>connections := tbl\<rparr>, [], failed)
                | Some d \<Rightarrow>
                    (case handleRideStatusUpdate push now (rides st) cid d (tbl, []) of
                       (tbl', posts) \<Rightarrow> (st\<lparr>connections := tbl'\<rparr>, posts, processed)))
             else if action b = ''ping'' then
               (case sendMessageToConnection push now cid Pong (tbl, []) of
                  (tbl', posts) \<Rightarrow> (st\<lparr>connections := tbl'\<rparr>, posts, processed))
             else (st\<lparr>connections := tbl\<rparr>, [], processed))"

subsection \<open>Parties of a ride and live connections\<close>

text \<open>
  The users a ride belongs to, the ids of the live connections of the users that satisfy
  a predicate, and a table in which the connections of some ids are marked disconnected.
\<close>

definition party :: "ride \<Rightarrow> string \<Rightarrow> bool" where
  "party r u = (u = ride.userId r \<or> ride.driverId r = Some u)"

definition live_connection_ids :: "connection list \<Rightarrow> (string \<Rightarrow> bool) \<Rightarrow> string list" where
  "live_connection_ids tbl P =
     map connectionId
       (filter (\<lambda>c. disconnectedAt c = None
                    \<and> (case connection.userId c of None \<Rightarrow> False | Some u \<Rightarrow> P u)) tbl)"

definition mark_gone :: "timestamp \<Rightarrow> string set \<Rightarrow> connection list \<Rightarrow> connection list" where
  "mark_gone now G tbl =
     map (\<lambda>c. if connectionId c \<in> G then c\<lparr>disconnectedAt := Some now\<rparr> else c) tbl"

subsection \<open>Stores that differ in one licence number\<close>

text \<open>
  \<open>set_license did l\<close> replaces the licence number of the driver \<open>did\<close> and leaves every
  other attribute and every other driver as they are.
\<close>

definition set_license :: "string \<Rightarrow> string \<Rightarrow> 'a driver_scheme \<Rightarrow> 'a driver_scheme" where
  "set_license did l d = (if driver.driverId d = did then d\<lparr>licenseNumber := l\<rparr> else d)"

section \<open>Example data\<close>

definition example_vehicle :: vehicle where
  "example_vehicle =
     \<lparr>vehicle_make = ''Toyota'', model = ''Prius'', year = 2020,
      licensePlate = ''7ABC123'', color = ''white''\<rparr>"

text \<open>
  A registered, active driver whose availability update stored a location and the hash of
  that location.
\<close>

definition example_driver :: "string \<Rightarrow> string \<Rightarrow> string \<Rightarrow> real \<Rightarrow> real \<Rightarrow> driver" where
  "example_driver did license st la lo =
     \<lparr>driverId = did, userId = did, licenseNumber = license,
      vehicleInfo = example_vehicle,
      status = st, rating = 5, totalRides = 0, isVerified = False,
      location = Some \<lparr>lat = la, lng = lo\<rparr>,
      locationHash = Some (generateLocationHash la lo),
      createdAt = ''2024-01-01T00:00:00.000Z'', isActive = True,
      updatedAt = Some ''2024-01-01T00:05:00.000Z''\<rparr>"

text \<open>
  An available driver 0.03 degrees of latitude (about 3.3 km) north of the point
  (37.775, -122.415).
\<close>

definition far_driver :: driver where
  "far_driver = example_driver ''d1'' ''D1234567'' ''available'' 37.805 (-122.415)"

text \<open>
  A query of 0.5 km around the same point, and three drivers on its meridian: one 0.002
  degrees north (about 0.22 km), one 0.01 degrees north (about 1.1 km, in a bucket of the
  ring), one busy.
\<close>

definition query_lat :: real where "query_lat = 37.775"

definition query_lng :: real where "query_lng = -122.415"

definition query_radius :: real where "query_radius = 0.5"

definition near_driver :: driver where
  "near_driver = example_driver ''d2'' ''N7654321'' ''available'' 37.777 (-122.415)"

definition edge_driver :: driver where
  "edge_driver = example_driver ''d3'' ''E1112223'' ''available'' 37.785 (-122.415)"

definition busy_driver :: driver where
  "busy_driver = example_driver ''d4'' ''B4445556'' ''busy'' 37.777 (-122.415)"

definition nearby_store :: store where
  "nearby_store = \<lparr>rides = [], drivers = [edge_driver, busy_driver, near_driver],
                    connections = [], events = []\<rparr>"

text \<open>
  A decoder for the examples: the token \<open>unsigned.U\<close> carries the subject \<open>U\<close>, no issuer,
  no audience and an expiry time long past.
\<close>

definition example_decode :: "string \<Rightarrow> jwt_payload option" where
  "example_decode t =
     (if prefix ''unsigned.'' t
      then Some \<lparr>sub = Some (drop 9 t), iss = None, aud = None, exp = Some 0\<rparr>
      else None)"

text \<open>
  A ride from request to completion: the rider \<open>u1\<close> requests the ride \<open>r1\<close>, the driver
  \<open>d1\<close> accepts it and reports each stage.
\<close>

definition example_request :: ride_request where
  "example_request =
     \<lparr>req_pickupLocation = Some \<lparr>lat = 37.7749, lng = -122.4194, address = ''1 Market St''\<rparr>,
      req_dropoffLocation = Some \<lparr>lat = 37.7849, lng = -122.4094, address = ''500 Bay St''\<rparr>,
      req_rideType = None\<rparr>"

definition idle_store :: store where
  "idle_store =
     \<lparr>rides = [],
      drivers = [example_driver ''d1'' ''D1234567'' ''available'' 37.777 (-122.415),
                 example_driver ''d2'' ''N7654321'' ''available'' 37.778 (-122.415)],
      connections = [], events = []\<rparr>"

definition requested_store :: store where
  "requested_store =
     fst (requestRide example_decode ''09:00'' ''r1'' (Some ''Bearer unsigned.u1'')
            (Some example_request) idle_store)"

definition matched_store :: store where
  "matched_store =
     fst (acceptRide example_decode ''09:01'' (Some ''Bearer unsigned.d1'') ''r1'' requested_store)"

definition report :: "string \<Rightarrow> string \<Rightarrow> timestamp \<Rightarrow> store \<Rightarrow> store \<times> response" where
  "report uid s now st =
     updateRideStatus example_decode now (Some (''Bearer unsigned.'' @ uid)) ''r1''
       (Some \<lparr>new_status = s, new_location = None\<rparr>) st"

definition enroute_store :: store where
  "enroute_store = fst (report ''d1'' ''en-route'' ''09:02'' matched_store)"

definition arrived_store :: store where
  "arrived_store = fst (report ''d1'' ''arrived'' ''09:05'' enroute_store)"

definition inprogress_store :: store where
  "inprogress_store = fst (report ''d1'' ''in-progress'' ''09:06'' arrived_store)"

definition completed_store :: store where
  "completed_store = fst (report ''d1'' ''completed'' ''09:20'' inprogress_store)"


text \<open>The item that \<open>requestRide\<close> stores for that request.\<close>

definition example_ride :: ride where
  "example_ride =
     \<lparr>rideId = ''r1'', userId = ''u1'', driverId = None, status = ''requested'',
      rideType = ''standard'',
      pickupLocation = \<lparr>lat = 37.7749, lng = -122.4194, address = ''1 Market St''\<rparr>,
      dropoffLocation = \<lparr>lat = 37.7849, lng = -122.4094, address = ''500 Bay St''\<rparr>,
      estimatedDistance = calculateDistance 37.7749 (-122.4194) 37.7849 (-122.4094),
      estimatedFare = calculateEstimatedFare
                        (calculateDistance 37.7749 (-122.4194) 37.7849 (-122.4094)) ''standard'',
      actualFare = None, createdAt = ''09:00'', matchedAt = None, startedAt = None,
      completedAt = None, updatedAt = None\<rparr>"

text \<open>
  Two drivers accept the requested ride \<open>r1\<close> at the same time, and two schedules of
  their calls: turn by turn, and one call after the other.
\<close>

definition racing_calls :: "accept_call list" where
  "racing_calls =
     [accept_begin example_decode (Some ''Bearer unsigned.d1'') ''r1'',
      accept_begin example_decode (Some ''Bearer unsigned.d2'') ''r1'']"

definition interleaved :: "nat list" where
  "interleaved = [0, 1, 0, 1, 0, 1, 0, 1, 0, 1]"

definition one_after_the_other :: "nat list" where
  "one_after_the_other = [0, 0, 0, 0, 0, 1, 1, 1, 1, 1]"

text \<open>
  Connections for the matched ride \<open>r1\<close>: one of the rider \<open>u1\<close>, a live and a closed
  one of the driver \<open>d1\<close>, one of another rider; a transport that delivers every post;
  a status message and a location message of the driver.
\<close>

definition example_connection ::
  "string \<Rightarrow> string \<Rightarrow> string \<Rightarrow> timestamp option \<Rightarrow> connection" where
  "example_connection cid uid utype disc =
     \<lparr>connectionId = cid, userId = Some uid, userType = Some utype,
      connectedAt = Some ''08:55'', lastActivity = Some ''08:55'', disconnectedAt = disc\<rparr>"

definition ws_store :: store where
  "ws_store =
     matched_store\<lparr>connections :=
       [example_connection ''c1'' ''u1'' ''rider'' None,
        example_connection ''c2'' ''d1'' ''driver'' None,
        example_connection ''c3'' ''d1'' ''driver'' (Some ''08:58''),
        example_connection ''c4'' ''u2'' ''rider'' None]\<rparr>"

definition always_delivered :: "string \<Rightarrow> push_result" where
  "always_delivered cid = Delivered"

definition status_data :: ws_data where
  "status_data =
     \<lparr>data_userId = None, data_location = None, data_rideId = Some ''r1'',
      data_status = Some ''arrived'', data_message = None\<rparr>"

definition location_data :: ws_data where
  "location_data =
     \<lparr>data_userId = Some ''d1'', data_location = Some \<lparr>lat = 37.776, lng = -122.415\<rparr>,
      data_rideId = Some ''r1'', data_status = None, data_message = None\<rparr>"

section \<open>Properties\<close>

subsection \<open>Distances along a meridian\<close>

lemma atan2_sin_cos:
  assumes "0 \<le> t" "t < pi / 2"
  shows "atan2 (sqrt (sin t * sin t)) (sqrt (1 - sin t * sin t)) = t"
proof -
  have s: "0 \<le> sin t" using assms by (intro sin_ge_zero) auto
  have c: "0 < cos t" using assms by (intro cos_gt_zero_pi) auto
  have "1 - sin t * sin t = cos t * cos t"
    using sin_cos_squared_add [of t] by (simp add: power2_eq_square algebra_simps)
  then have c2: "sqrt (1 - sin t * sin t) = cos t" using c by simp
  have "arctan (sin t / cos t) = t"
    using arctan_tan [of t] assms by (simp add: tan_def)
  then show ?thesis using c s by (simp add: atan2_def c2)
qed

lemma calculateDistance_same_longitude:
  assumes "lat1 \<le> lat2" "lat2 - lat1 < 180"
  shows "calculateDistance lat1 lon lat2 lon = 6371 * ((lat2 - lat1) * pi / 180)"
proof -
  define t where "t = (lat2 - lat1) * pi / 180 / 2"
  have t0: "0 \<le> t" using assms by (simp add: t_def)
  have "(lat2 - lat1) * pi < 180 * pi" using assms by simp
  then have t1: "t < pi / 2" by (simp add: t_def)
  have "calculateDistance lat1 lon lat2 lon
      = 6371 * (2 * atan2 (sqrt (sin t * sin t)) (sqrt (1 - sin t * sin t)))"
    by (simp add: calculateDistance_def Let_def t_def)
  also have "\<dots> = 6371 * (2 * t)" using atan2_sin_cos [OF t0 t1] by simp
  finally show ?thesis by (simp add: t_def)
qed

subsection \<open>The bucket ring of a radius query\<close>

lemma hashes_radius_5:
  "generateNearbyLocationHashes 37.775 (-122.415) 5 =
     [(3776, -12243), (3776, -12242), (3776, -12241),
      (3777, -12243), (3777, -12242), (3777, -12241),
      (3778, -12243), (3778, -12242), (3778, -12241)]"
  by (simp add: generateNearbyLocationHashes_def Let_def upto.simps set_add_def
        generateLocationHash_def)

lemma far_driver_within_radius: "within_radius 37.775 (-122.415) 5 far_driver"
proof -
  have "calculateDistance 37.775 (-122.415) 37.805 (-122.415)
      = 6371 * ((37.805 - 37.775) * pi / 180)"
    by (rule calculateDistance_same_longitude) simp_all
  also have "\<dots> \<le> 5" using pi_less_4 by simp
  finally show ?thesis by (simp add: within_radius_def far_driver_def example_driver_def)
qed

lemma far_driver_no_candidate: "bucket_candidates [far_driver] 37.775 (-122.415) 5 = []"
  unfolding bucket_candidates_def hashes_radius_5
  by (simp add: query_LocationIndex_def far_driver_def example_driver_def
        generateLocationHash_def)

lemma far_driver_not_returned:
  "getNearbyDrivers (Some 37.775) (Some (-122.415)) None
     \<lparr>rides = [], drivers = [far_driver], connections = [], events = []\<rparr>
   = createResponse 200 (DriversBody [])"
  unfolding getNearbyDrivers_def nearbyDrivers_def
  apply (simp only: prod.case option.case Let_def store.simps hashes_radius_5)
  by (simp add: query_LocationIndex_def far_driver_def example_driver_def
        generateLocationHash_def sortedDrivers_def)

text \<open>
  C5. The claim: every stored driver that is available, active, has a location and is
  within the radius is among the candidates of the bucket stage of \<open>getNearbyDrivers\<close>.
  The code: for the query point (37.775, -122.415) and the default radius of 5 km,
  \<open>steps\<close> is \<open>ceil (5 / 111.32) = 1\<close>, a number of degrees used as a number of grid cells
  of 0.01 degrees, so only the 3 by 3 buckets around the point are queried. The driver
  \<open>far_driver\<close> is available and active, carries the hash of its location, and is within
  5 km, yet it is no candidate and the response is empty.
\<close>

theorem bucket_ring_misses_driver_within_radius:
  "driver.status far_driver = ''available'' \<and> isActive far_driver
   \<and> location far_driver = Some \<lparr>lat = 37.805, lng = -122.415\<rparr>
   \<and> locationHash far_driver = Some (generateLocationHash 37.805 (-122.415))
   \<and> within_radius 37.775 (-122.415) 5 far_driver
   \<and> bucket_candidates [far_driver] 37.775 (-122.415) 5 = []
   \<and> getNearbyDrivers (Some 37.775) (Some (-122.415)) None
        \<lparr>rides = [], drivers = [far_driver], connections = [], events = []\<rparr>
      = createResponse 200 (DriversBody [])"
  using far_driver_within_radius far_driver_no_candidate far_driver_not_returned
  by (simp add: far_driver_def example_driver_def)

subsection \<open>The drivers a radius query returns\<close>

lemma nearbyDrivers_set:
  "set (nearbyDrivers tbl la lo r) \<subseteq>
     {d \<in> set tbl. driver.status d = ''available'' \<and> isActive d \<and> within_radius la lo r d}"
  by (auto simp: nearbyDrivers_def query_LocationIndex_def)

lemma those_map_Some:
  "those (map f xs) = Some ys \<longleftrightarrow> map f xs = map Some ys"
  by (induction xs arbitrary: ys) (auto split: option.splits)

lemma those_with_distance:
  assumes "\<forall>d \<in> set xs. location d \<noteq> None"
  shows "those (map (with_distance la lo) xs) = Some (map (\<lambda>d. the (with_distance la lo d)) xs)"
  using assms by (induction xs) (auto simp: with_distance_def split: option.splits)

lemma nearbyDrivers_located: "\<forall>d \<in> set (nearbyDrivers tbl la lo r). location d \<noteq> None"
  using nearbyDrivers_set [of tbl la lo r]
  by (auto simp: within_radius_def split: option.splits)

lemma getNearbyDrivers_eq:
  "getNearbyDrivers (Some la) (Some lo) qr st =
     createResponse 200 (DriversBody (sortedDrivers
       (map (\<lambda>d. the (with_distance la lo d))
            (nearbyDrivers (drivers st) la lo (case qr of None \<Rightarrow> 5 | Some x \<Rightarrow> x)))))"
  by (simp add: getNearbyDrivers_def Let_def those_with_distance [OF nearbyDrivers_located])

lemma sortedDrivers_subset: "set (sortedDrivers xs) \<subseteq> set xs"
  using set_take_subset [of 10 "sort_key (\<lambda>a. - score a) xs"] by (simp add: sortedDrivers_def)

lemma with_distance_props:
  assumes "with_distance la lo d = Some r"
  shows "driver.truncate r = d" "driver.status r = driver.status d" "isActive r = isActive d"
    "location r = location d" "licenseNumber r = licenseNumber d"
    "driver.driverId r = driver.driverId d"
    "\<exists>l. location d = Some l \<and> distance r = calculateDistance la lo (lat l) (lng l)"
  using assms
  by (auto simp: with_distance_def driver.truncate_def driver.extend_def nearby_driver.fields_def
      split: option.splits)

lemma hashes_half_km:
  "generateNearbyLocationHashes query_lat query_lng query_radius =
     [(3776, -12243), (3776, -12242), (3776, -12241),
      (3777, -12243), (3777, -12242), (3777, -12241),
      (3778, -12243), (3778, -12242), (3778, -12241)]"
  by (simp add: generateNearbyLocationHashes_def Let_def upto.simps set_add_def
        generateLocationHash_def query_lat_def query_lng_def query_radius_def)

lemma example_attrs:
  "locationHash near_driver = Some (3777, -12242)" "driver.status near_driver = ''available''"
  "isActive near_driver"
  "locationHash edge_driver = Some (3778, -12242)" "driver.status edge_driver = ''available''"
  "isActive edge_driver"
  "locationHash busy_driver = Some (3777, -12242)" "driver.status busy_driver = ''busy''"
  by (simp_all add: near_driver_def edge_driver_def busy_driver_def example_driver_def
        generateLocationHash_def)

lemma near_driver_within: "within_radius query_lat query_lng query_radius near_driver"
proof -
  have "calculateDistance 37.775 (-122.415) 37.777 (-122.415)
      = 6371 * ((37.777 - 37.775) * pi / 180)"
    by (rule calculateDistance_same_longitude) simp_all
  also have "\<dots> \<le> 0.5" using pi_less_4 by simp
  finally show ?thesis
    by (simp add: within_radius_def near_driver_def example_driver_def query_lat_def query_lng_def
          query_radius_def)
qed

lemma edge_driver_outside: "\<not> within_radius query_lat query_lng query_radius edge_driver"
proof -
  have "calculateDistance 37.775 (-122.415) 37.785 (-122.415)
      = 6371 * ((37.785 - 37.775) * pi / 180)"
    by (rule calculateDistance_same_longitude) simp_all
  also have "\<dots> > 0.5" using pi_ge_two by simp
  finally show ?thesis
    by (simp add: within_radius_def edge_driver_def example_driver_def query_lat_def query_lng_def
          query_radius_def)
qed

lemma nearby_store_near:
  "nearbyDrivers (drivers nearby_store) query_lat query_lng query_radius = [near_driver]"
  unfolding nearbyDrivers_def hashes_half_km
  by (simp add: nearby_store_def query_LocationIndex_def example_attrs near_driver_within
        edge_driver_outside)

lemma nearby_store_response:
  "getNearbyDrivers (Some query_lat) (Some query_lng) (Some query_radius) nearby_store =
     createResponse 200 (DriversBody [the (with_distance query_lat query_lng near_driver)])"
  by (simp add: getNearbyDrivers_eq nearby_store_near sortedDrivers_def)

lemma nearby_member:
  assumes "r \<in> set (sortedDrivers (map (\<lambda>d. the (with_distance la lo d))
                                       (nearbyDrivers tbl la lo radius)))"
  shows "driver.status r = ''available'' \<and> isActive r
         \<and> (\<exists>l. location r = Some l
                \<and> distance r = calculateDistance la lo (lat l) (lng l)
                \<and> distance r \<le> radius)
         \<and> driver.truncate r \<in> set tbl"
proof -
  from assms sortedDrivers_subset obtain d where d: "d \<in> set (nearbyDrivers tbl la lo radius)"
    and r: "r = the (with_distance la lo d)"
    by fastforce
  from d nearbyDrivers_set [of tbl la lo radius]
  have p: "d \<in> set tbl" "driver.status d = ''available''" "isActive d"
    "within_radius la lo radius d"
    by auto
  from p(4) obtain l where l: "location d = Some l"
    "calculateDistance la lo (lat l) (lng l) \<le> radius"
    by (auto simp: within_radius_def split: option.splits)
  then have w: "with_distance la lo d = Some r"
    using r by (simp add: with_distance_def)
  from with_distance_props [OF w] p l show ?thesis by auto
qed

text \<open>
  C6. For every query point and radius, \<open>getNearbyDrivers\<close> answers 200 with a list, and
  every driver in the list is available, is active, has a location, carries the haversine
  distance from the query point to that location, which is at most the radius (5 when
  none is given), and is an item of the drivers table.
\<close>

theorem getNearbyDrivers_no_false_positives:
  "\<exists>ds. getNearbyDrivers (Some latitude) (Some longitude) qradius st
           = createResponse 200 (DriversBody ds)
       \<and> (\<forall>r \<in> set ds.
             driver.status r = ''available'' \<and> isActive r
             \<and> (\<exists>l. location r = Some l
                    \<and> distance r = calculateDistance latitude longitude (lat l) (lng l)
                    \<and> distance r \<le> (case qradius of None \<Rightarrow> 5 | Some x \<Rightarrow> x))
             \<and> driver.truncate r \<in> set (drivers st))"
  unfolding getNearbyDrivers_eq using nearby_member by blast

theorem getNearbyDrivers_no_false_positives_witness:
  "getNearbyDrivers (Some query_lat) (Some query_lng) (Some query_radius) nearby_store =
     createResponse 200 (DriversBody [the (with_distance query_lat query_lng near_driver)])
   \<and> driver.status (the (with_distance query_lat query_lng near_driver)) = ''available''
   \<and> isActive (the (with_distance query_lat query_lng near_driver))
   \<and> distance (the (with_distance query_lat query_lng near_driver)) \<le> query_radius
   \<and> driver.truncate (the (with_distance query_lat query_lng near_driver))
       \<in> set (drivers nearby_store)"
proof -
  from getNearbyDrivers_no_false_positives [of query_lat query_lng "Some query_radius" nearby_store]
  obtain ds where ds:
    "getNearbyDrivers (Some query_lat) (Some query_lng) (Some query_radius) nearby_store
       = createResponse 200 (DriversBody ds)"
    "\<forall>r \<in> set ds.
        driver.status r = ''available'' \<and> isActive r
        \<and> (\<exists>l. location r = Some l
               \<and> distance r = calculateDistance query_lat query_lng (lat l) (lng l)
               \<and> distance r \<le> (case Some query_radius of None \<Rightarrow> 5 | Some x \<Rightarrow> x))
        \<and> driver.truncate r \<in> set (drivers nearby_store)"
    by blast
  from ds(1) have "ds = [the (with_distance query_lat query_lng near_driver)]"
    by (simp add: nearby_store_response createResponse_def)
  with ds(2) nearby_store_response show ?thesis by auto
qed

subsection \<open>Licence numbers in responses\<close>

lemma insort_key_map:
  "insort_key f (g x) (map g xs) = map g (insort_key (\<lambda>a. f (g a)) x xs)"
  by (induction xs) auto

lemma sort_key_map: "sort_key f (map g xs) = map g (sort_key (\<lambda>a. f (g a)) xs)"
  by (induction xs) (auto simp: insort_key_map)

lemma score_set_license [simp]: "score (set_license did l a) = score a"
  by (simp add: set_license_def score_def)

lemma sortedDrivers_set_license:
  "sortedDrivers (map (set_license did l) xs) = map (set_license did l) (sortedDrivers xs)"
  by (simp add: sortedDrivers_def sort_key_map take_map)

lemma within_radius_set_license [simp]:
  "within_radius la lo r (set_license did l d) = within_radius la lo r d"
  by (simp add: within_radius_def set_license_def)

lemma nearbyDrivers_set_license:
  "nearbyDrivers (map (set_license did l) tbl) la lo r
     = map (set_license did l) (nearbyDrivers tbl la lo r)"
proof -
  have q: "query_LocationIndex (map (set_license did l) tbl) h
             = map (set_license did l) (query_LocationIndex tbl h)" for h
    by (simp add: query_LocationIndex_def filter_map o_def set_license_def cong: filter_cong)
  show ?thesis
    by (simp add: nearbyDrivers_def q filter_map o_def map_concat cong: filter_cong)
qed

lemma with_distance_set_license:
  "location d \<noteq> None \<Longrightarrow> the (with_distance la lo (set_license did l d))
     = set_license did l (the (with_distance la lo d))"
  by (auto simp: with_distance_def set_license_def driver.extend_def split: option.splits)

lemma getNearbyDrivers_set_license:
  assumes "getNearbyDrivers (Some la) (Some lo) qr st = createResponse 200 (DriversBody ds)"
  shows "getNearbyDrivers (Some la) (Some lo) qr
           (st\<lparr>drivers := map (set_license did l) (drivers st)\<rparr>)
         = createResponse 200 (DriversBody (map (set_license did l) ds))"
proof -
  define radius :: real where "radius = (case qr of None \<Rightarrow> 5 | Some x \<Rightarrow> x)"
  define near where "near = nearbyDrivers (drivers st) la lo radius"
  have ds: "ds = sortedDrivers (map (\<lambda>d. the (with_distance la lo d)) near)"
    using assms by (simp add: getNearbyDrivers_eq createResponse_def radius_def near_def)
  have m: "map (\<lambda>d. the (with_distance la lo d)) (map (set_license did l) near)
        = map (set_license did l) (map (\<lambda>d. the (with_distance la lo d)) near)"
    using nearbyDrivers_located [of "drivers st" la lo radius]
    by (simp add: with_distance_set_license near_def)
  have "getNearbyDrivers (Some la) (Some lo) qr
           (st\<lparr>drivers := map (set_license did l) (drivers st)\<rparr>)
        = createResponse 200 (DriversBody (sortedDrivers
            (map (\<lambda>d. the (with_distance la lo d)) (map (set_license did l) near))))"
    unfolding getNearbyDrivers_eq near_def radius_def
    by (simp add: nearbyDrivers_set_license del: map_map)
  also have "\<dots> = createResponse 200 (DriversBody (map (set_license did l) ds))"
    unfolding m sortedDrivers_set_license ds ..
  finally show ?thesis .
qed

lemma map_set_license_neq:
  assumes "r \<in> set ds" "l \<noteq> licenseNumber r"
  shows "map (set_license (driver.driverId r) l) ds \<noteq> ds"
proof
  assume "map (set_license (driver.driverId r) l) ds = ds"
  then have "set_license (driver.driverId r) l r = r"
    using assms(1) by (metis map_eq_conv map_ident)
  then have "licenseNumber (r\<lparr>licenseNumber := l\<rparr>) = licenseNumber r"
    by (simp add: set_license_def)
  with assms(2) show False by simp
qed

lemma getDriverProfile_masks:
  assumes "getDriverProfile decode h st = createResponse 200 (DriverBody d')"
  shows "\<exists>d \<in> set (drivers st). d' = d\<lparr>licenseNumber := ''***'' @ slice_last4 (licenseNumber d)\<rparr>"
  using assms
  by (auto simp: getDriverProfile_def createResponse_def internal_error_def dbGet_driver_def
       find_Some_iff split: option.splits) 

lemma slice_last4_props: "length (slice_last4 s) = min 4 (length s)" "suffix (slice_last4 s) s"
  by (auto simp: slice_last4_def suffix_drop)


lemma caller_unsigned:
  "caller example_decode (Some (''Bearer unsigned.'' @ u)) = (if u = [] then None else Some u)"
  by (simp add: caller_def validateToken_def example_decode_def)

lemma near_driver_profile:
  "getDriverProfile example_decode (Some ''Bearer unsigned.d2'') nearby_store
     = createResponse 200 (DriverBody (near_driver\<lparr>licenseNumber := ''***4321''\<rparr>))"
  using caller_unsigned [of "''d2''"]
  by (simp add: getDriverProfile_def nearby_store_def dbGet_driver_def near_driver_def
       edge_driver_def busy_driver_def example_driver_def slice_last4_def)

text \<open>
  C10. Every driver in the response of \<open>getNearbyDrivers\<close> is a whole item of the drivers
  table with its distance, the licence number as stored: a store that differs only in
  the licence number of a returned driver gives a different response. \<open>getDriverProfile\<close>
  answers with the item whose licence number is \<open>***\<close> and the last four characters of
  the stored one.
\<close>

theorem getNearbyDrivers_exposes_licenseNumber:
  "(getNearbyDrivers (Some la) (Some lo) qr st = createResponse 200 (DriversBody ds) \<and> r \<in> set ds
      \<longrightarrow> driver.truncate r \<in> set (drivers st)
          \<and> (\<forall>l. l \<noteq> licenseNumber r \<longrightarrow>
                 getNearbyDrivers (Some la) (Some lo) qr
                   (st\<lparr>drivers := map (set_license (driver.driverId r) l) (drivers st)\<rparr>)
                 \<noteq> getNearbyDrivers (Some la) (Some lo) qr st))
   \<and> (getDriverProfile decode h st = createResponse 200 (DriverBody d')
      \<longrightarrow> (\<exists>d \<in> set (drivers st).
             d' = d\<lparr>licenseNumber := ''***'' @ slice_last4 (licenseNumber d)\<rparr>
             \<and> suffix (slice_last4 (licenseNumber d)) (licenseNumber d)
             \<and> length (slice_last4 (licenseNumber d)) = min 4 (length (licenseNumber d))))"
proof (intro conjI impI)
  assume a: "getNearbyDrivers (Some la) (Some lo) qr st = createResponse 200 (DriversBody ds)
             \<and> r \<in> set ds"
  from a nearby_member [of r la lo "drivers st" "case qr of None \<Rightarrow> 5 | Some x \<Rightarrow> x"]
  show "driver.truncate r \<in> set (drivers st)"
    by (simp add: getNearbyDrivers_eq createResponse_def)
  show "\<forall>l. l \<noteq> licenseNumber r \<longrightarrow>
          getNearbyDrivers (Some la) (Some lo) qr
            (st\<lparr>drivers := map (set_license (driver.driverId r) l) (drivers st)\<rparr>)
          \<noteq> getNearbyDrivers (Some la) (Some lo) qr st"
  proof (intro allI impI)
    fix l assume l: "l \<noteq> licenseNumber r"
    from a have "getNearbyDrivers (Some la) (Some lo) qr
            (st\<lparr>drivers := map (set_license (driver.driverId r) l) (drivers st)\<rparr>)
          = createResponse 200 (DriversBody (map (set_license (driver.driverId r) l) ds))"
      by (intro getNearbyDrivers_set_license) simp
    moreover have "map (set_license (driver.driverId r) l) ds \<noteq> ds"
      using a l by (intro map_set_license_neq) simp_all
    ultimately show "getNearbyDrivers (Some la) (Some lo) qr
            (st\<lparr>drivers := map (set_license (driver.driverId r) l) (drivers st)\<rparr>)
          \<noteq> getNearbyDrivers (Some la) (Some lo) qr st"
      using a by (simp add: createResponse_def)
  qed
next
  assume "getDriverProfile decode h st = createResponse 200 (DriverBody d')"
  from getDriverProfile_masks [OF this] slice_last4_props
  show "\<exists>d \<in> set (drivers st).
             d' = d\<lparr>licenseNumber := ''***'' @ slice_last4 (licenseNumber d)\<rparr>
             \<and> suffix (slice_last4 (licenseNumber d)) (licenseNumber d)
             \<and> length (slice_last4 (licenseNumber d)) = min 4 (length (licenseNumber d))"
    by blast
qed

theorem getNearbyDrivers_exposes_licenseNumber_witness:
  "getNearbyDrivers (Some query_lat) (Some query_lng) (Some query_radius) nearby_store =
     createResponse 200 (DriversBody [the (with_distance query_lat query_lng near_driver)])
   \<and> licenseNumber (the (with_distance query_lat query_lng near_driver)) = ''N7654321''
   \<and> driver.truncate (the (with_distance query_lat query_lng near_driver))
       \<in> set (drivers nearby_store)
   \<and> getNearbyDrivers (Some query_lat) (Some query_lng) (Some query_radius)
        (nearby_store\<lparr>drivers := map (set_license ''d2'' ''X0000000'') (drivers nearby_store)\<rparr>)
      \<noteq> getNearbyDrivers (Some query_lat) (Some query_lng) (Some query_radius) nearby_store
   \<and> getDriverProfile example_decode (Some ''Bearer unsigned.d2'') nearby_store
      = createResponse 200 (DriverBody (near_driver\<lparr>licenseNumber := ''***4321''\<rparr>))"
proof -
  let ?r = "the (with_distance query_lat query_lng near_driver)"
  have w: "with_distance query_lat query_lng near_driver = Some ?r"
    by (simp add: with_distance_def near_driver_def example_driver_def)
  have lic: "licenseNumber ?r = ''N7654321''" and did: "driver.driverId ?r = ''d2''"
    using with_distance_props(5,6) [OF w] by (simp_all add: near_driver_def example_driver_def)
  have "getNearbyDrivers (Some query_lat) (Some query_lng) (Some query_radius) nearby_store
          = createResponse 200 (DriversBody [?r]) \<and> ?r \<in> set [?r]"
    by (simp add: nearby_store_response)
  with getNearbyDrivers_exposes_licenseNumber
         [of query_lat query_lng "Some query_radius" nearby_store "[?r]" ?r]
  have "driver.truncate ?r \<in> set (drivers nearby_store)
        \<and> (\<forall>l. l \<noteq> licenseNumber ?r \<longrightarrow>
               getNearbyDrivers (Some query_lat) (Some query_lng) (Some query_radius)
                 (nearby_store\<lparr>drivers := map (set_license (driver.driverId ?r) l)
                                             (drivers nearby_store)\<rparr>)
               \<noteq> getNearbyDrivers (Some query_lat) (Some query_lng) (Some query_radius)
                    nearby_store)"
    by blast
  then show ?thesis
    using lic did nearby_store_response near_driver_profile by simp
qed

subsection \<open>The rides table under the three handlers\<close>

lemma dbGet_dbUpdate_ride:
  assumes "\<And>x. rideId (f x) = rideId x"
  shows "dbGet_ride (dbUpdate_ride tbl rid f) k
           = (if k = rid then map_option f (dbGet_ride tbl k) else dbGet_ride tbl k)"
  by (induction tbl) (auto simp: dbGet_ride_def dbUpdate_ride_def assms)

lemma find_append_one:
  "find P (xs @ [y]) = (case find P xs of Some x \<Rightarrow> Some x | None \<Rightarrow> if P y then Some y else None)"
  by (induction xs) auto

lemma find_replace_key:
  "find (\<lambda>r. rideId r = k) (map (\<lambda>r. if rideId r = rideId item then item else r) xs)
     = (if k = rideId item
        then map_option (\<lambda>_. item) (find (\<lambda>r. rideId r = rideId item) xs)
        else find (\<lambda>r. rideId r = k) xs)"
  by (induction xs) auto

lemma dbGet_dbPut_ride:
  "dbGet_ride (dbPut_ride tbl item) k
     = (if k = rideId item then Some item else dbGet_ride tbl k)"
  by (cases "find (\<lambda>r. rideId r = rideId item) tbl")
     (auto simp: dbPut_ride_def dbGet_ride_def find_append_one find_replace_key
        split: option.splits)

lemma set_dbUpdate_ride: "set (dbUpdate_ride tbl rid f) \<subseteq> set tbl \<union> f ` set tbl"
  by (auto simp: dbUpdate_ride_def)

lemma set_dbPut_ride: "set (dbPut_ride tbl item) \<subseteq> insert item (set tbl)"
  by (auto simp: dbPut_ride_def split: option.splits)

lemma status_updates_simps [simp]:
  "rideId (status_updates now s r x) = rideId x"
  "ride.status (status_updates now s r x) = s"
  "ride.driverId (status_updates now s r x) = ride.driverId x"
  "ride.userId (status_updates now s r x) = ride.userId x"
  by (simp_all add: status_updates_def Let_def)

lemma requestRide_rides:
  "rides (fst (requestRide decode now uuid h b st)) = rides st
   \<or> (\<exists>r. rides (fst (requestRide decode now uuid h b st)) = dbPut_ride (rides st) r
         \<and> rideId r = uuid \<and> ride.status r = ''requested'' \<and> ride.driverId r = None)"
  by (auto simp: requestRide_def publishEvent_def Let_def split: option.splits sum.splits)

lemma acceptRide_rides:
  "rides (fst (acceptRide decode now h rid st)) = rides st
   \<or> (\<exists>did r. caller decode h = Some did \<and> dbGet_ride (rides st) rid = Some r
         \<and> ride.status r = ''requested''
         \<and> rides (fst (acceptRide decode now h rid st))
            = dbUpdate_ride (rides st) rid
                (\<lambda>x. x\<lparr>ride.driverId := Some did, ride.status := ''matched'',
                       matchedAt := Some now\<rparr>))"
  by (auto simp: acceptRide_def publishEvent_def Let_def split: option.splits)

lemma updateRideStatus_rides:
  "rides (fst (updateRideStatus decode now h rid upd st)) = rides st
   \<or> (\<exists>b r. upd = Some b \<and> new_status b \<in> set validStatuses
         \<and> dbGet_ride (rides st) rid = Some r
         \<and> rides (fst (updateRideStatus decode now h rid upd st))
            = dbUpdate_ride (rides st) rid (status_updates now (new_status b) r))"
  by (auto simp: updateRideStatus_def publishEvent_def Let_def split: option.splits)

lemma reachable_inv:
  "reachable st \<Longrightarrow> r \<in> set (rides st) \<Longrightarrow>
     ride.status r \<in> set (''requested'' # ''matched'' # validStatuses)
     \<and> (ride.status r = ''requested'' \<longrightarrow> ride.driverId r = None)
     \<and> (ride.status r = ''matched'' \<longrightarrow> ride.driverId r \<noteq> None)"
proof (induction arbitrary: r rule: reachable.induct)
  case (initial st)
  then show ?case by simp
next
  case (request st decode now uuid authHeader reqBody)
  from requestRide_rides [of decode now uuid authHeader reqBody st] request.prems
    set_dbPut_ride
  have "r \<in> set (rides st) \<or> (ride.status r = ''requested'' \<and> ride.driverId r = None)"
    by fastforce
  with request.IH show ?case by auto
next
  case (accept st decode now authHeader rid)
  from acceptRide_rides [of decode now authHeader rid st] accept.prems
    set_dbUpdate_ride
  have "r \<in> set (rides st) \<or> (ride.status r = ''matched'' \<and> ride.driverId r \<noteq> None)"
    by fastforce
  with accept.IH show ?case by auto
next
  case (update st decode now authHeader rid upd)
  from updateRideStatus_rides [of decode now authHeader rid upd st] update.prems
    set_dbUpdate_ride
  have "r \<in> set (rides st) \<or> ride.status r \<in> set validStatuses"
    by fastforce
  with update.IH show ?case by (auto simp: validStatuses_def)
qed


subsection \<open>The example ride, handler by handler\<close>

lemma caller_u1: "caller example_decode (Some ''Bearer unsigned.u1'') = Some ''u1''"
  using caller_unsigned [of "''u1''"] by simp

lemma caller_d1: "caller example_decode (Some ''Bearer unsigned.d1'') = Some ''d1''"
  using caller_unsigned [of "''d1''"] by simp

lemma validate_example:
  "validate_ride example_request =
     Inr (\<lparr>lat = 37.7749, lng = -122.4194, address = ''1 Market St''\<rparr>,
          \<lparr>lat = 37.7849, lng = -122.4094, address = ''500 Bay St''\<rparr>, ''standard'')"
  by (simp add: validate_ride_def validate_place_def example_request_def)

lemma requested_store_rides: "rides requested_store = [example_ride]"
  by (simp add: requested_store_def requestRide_def caller_u1 validate_example idle_store_def
        query_UserRidesIndex_def Let_def dbPut_ride_def dbGet_ride_def publishEvent_def
        example_ride_def)

lemma requested_store_drivers: "drivers requested_store = drivers idle_store"
  by (simp add: requested_store_def requestRide_def caller_u1 validate_example idle_store_def
        query_UserRidesIndex_def Let_def publishEvent_def)

lemma matched_store_rides:
  "rides matched_store =
     [example_ride\<lparr>ride.driverId := Some ''d1'', ride.status := ''matched'',
                   matchedAt := Some ''09:01''\<rparr>]"
  by (simp add: matched_store_def acceptRide_def caller_d1 requested_store_rides
        requested_store_drivers idle_store_def dbGet_ride_def dbGet_driver_def
        example_driver_def dbUpdate_ride_def publishEvent_def Let_def example_ride_def)

lemma matched_store_drivers:
  "drivers matched_store =
     [(example_driver ''d1'' ''D1234567'' ''available'' 37.777 (-122.415))
        \<lparr>driver.status := ''busy'', driver.updatedAt := Some ''09:01''\<rparr>,
      example_driver ''d2'' ''N7654321'' ''available'' 37.778 (-122.415)]"
  by (simp add: matched_store_def acceptRide_def caller_d1 requested_store_rides
        requested_store_drivers idle_store_def dbGet_ride_def dbGet_driver_def
        example_driver_def dbUpdate_ride_def dbUpdate_driver_def publishEvent_def Let_def
        example_ride_def)


lemmas example_eval =
  updateRideStatus_def report_def dbGet_ride_def dbGet_driver_def dbUpdate_ride_def
  dbUpdate_driver_def publishEvent_def Let_def validStatuses_def status_updates_def
  completed_driver_def example_ride_def example_driver_def

lemma enroute_store_rides:
  "rides enroute_store =
     [example_ride\<lparr>ride.driverId := Some ''d1'', ride.status := ''en-route'',
                   matchedAt := Some ''09:01'', ride.updatedAt := Some ''09:02''\<rparr>]"
  using caller_unsigned [of "''d1''"]
  by (simp add: enroute_store_def matched_store_rides example_eval)

lemma enroute_store_drivers: "drivers enroute_store = drivers matched_store"
  using caller_unsigned [of "''d1''"]
  by (simp add: enroute_store_def matched_store_rides example_eval)

lemma arrived_store_rides:
  "rides arrived_store =
     [example_ride\<lparr>ride.driverId := Some ''d1'', ride.status := ''arrived'',
                   matchedAt := Some ''09:01'', ride.updatedAt := Some ''09:05''\<rparr>]"
  using caller_unsigned [of "''d1''"]
  by (simp add: arrived_store_def enroute_store_rides example_eval)

lemma arrived_store_drivers: "drivers arrived_store = drivers matched_store"
  using caller_unsigned [of "''d1''"]
  by (simp add: arrived_store_def enroute_store_rides enroute_store_drivers example_eval)

lemma inprogress_store_rides:
  "rides inprogress_store =
     [example_ride\<lparr>ride.driverId := Some ''d1'', ride.status := ''in-progress'',
                   matchedAt := Some ''09:01'', startedAt := Some ''09:06'',
                   ride.updatedAt := Some ''09:06''\<rparr>]"
  using caller_unsigned [of "''d1''"]
  by (simp add: inprogress_store_def arrived_store_rides example_eval)

lemma inprogress_store_drivers: "drivers inprogress_store = drivers matched_store"
  using caller_unsigned [of "''d1''"]
  by (simp add: inprogress_store_def arrived_store_rides arrived_store_drivers example_eval)


lemma completed_store_drivers:
  "map (\<lambda>d. (driver.driverId d, driver.status d, totalRides d)) (drivers completed_store) =
     [(''d1'', ''available'', 1), (''d2'', ''available'', 0)]"
  using caller_unsigned [of "''d1''"]
  by (simp add: completed_store_def inprogress_store_rides inprogress_store_drivers
        matched_store_drivers example_eval)


lemma reachable_examples:
  "reachable idle_store" "reachable requested_store" "reachable matched_store"
  "reachable enroute_store" "reachable arrived_store" "reachable inprogress_store"
  "reachable completed_store"
proof -
  show 0: "reachable idle_store" by (rule reachable.initial) (simp add: idle_store_def)
  show 1: "reachable requested_store"
    unfolding requested_store_def by (rule reachable.request [OF 0])
  show 2: "reachable matched_store"
    unfolding matched_store_def by (rule reachable.accept [OF 1])
  show 3: "reachable enroute_store"
    unfolding enroute_store_def report_def by (rule reachable.update [OF 2])
  show 4: "reachable arrived_store"
    unfolding arrived_store_def report_def by (rule reachable.update [OF 3])
  show 5: "reachable inprogress_store"
    unfolding inprogress_store_def report_def by (rule reachable.update [OF 4])
  show "reachable completed_store"
    unfolding completed_store_def report_def by (rule reachable.update [OF 5])
qed

subsection \<open>The driver of a ride and its state\<close>

text \<open>
  C3, as claimed: in every ride state reachable through \<open>requestRide\<close>, \<open>acceptRide\<close> and
  \<open>updateRideStatus\<close>, \<open>driverId\<close> is non-null if and only if the state is one of
  matched, en-route, arrived, in-progress, completed. It fails in both directions: the
  rider cancels the matched ride \<open>r1\<close> and the cancelled ride keeps its driver; the rider
  reports en-route for the requested ride \<open>r1\<close> and the ride is en-route with no driver.
\<close>

theorem driverId_iff_counterexample:
  "reachable (fst (report ''u1'' ''cancelled'' ''09:03'' matched_store))
   \<and> ride_state (fst (report ''u1'' ''cancelled'' ''09:03'' matched_store)) ''r1''
       = Some (''cancelled'', Some ''d1'')
   \<and> reachable (fst (report ''u1'' ''en-route'' ''09:01'' requested_store))
   \<and> ride_state (fst (report ''u1'' ''en-route'' ''09:01'' requested_store)) ''r1''
       = Some (''en-route'', None)"
proof -
  have "reachable (fst (report ''u1'' ''cancelled'' ''09:03'' matched_store))"
    unfolding report_def by (rule reachable.update [OF reachable_examples(3)])
  moreover have "reachable (fst (report ''u1'' ''en-route'' ''09:01'' requested_store))"
    unfolding report_def by (rule reachable.update [OF reachable_examples(2)])
  moreover have "ride_state (fst (report ''u1'' ''cancelled'' ''09:03'' matched_store)) ''r1''
       = Some (''cancelled'', Some ''d1'')"
    using caller_unsigned [of "''u1''"]
    by (simp add: matched_store_rides ride_state_def example_eval)
  moreover have "ride_state (fst (report ''u1'' ''en-route'' ''09:01'' requested_store)) ''r1''
       = Some (''en-route'', None)"
    using caller_unsigned [of "''u1''"]
    by (simp add: requested_store_rides ride_state_def example_eval)
  ultimately show ?thesis by simp
qed

text \<open>
  C3, amended: in every reachable ride state, a requested ride has no driver, a matched
  ride has a driver, and a ride with a driver is in one of the states matched, en-route,
  arrived, in-progress, completed, cancelled.
\<close>

theorem driverId_by_state:
  assumes "reachable st" and "r \<in> set (rides st)"
  shows "(ride.status r = ''requested'' \<longrightarrow> ride.driverId r = None)
         \<and> (ride.status r = ''matched'' \<longrightarrow> ride.driverId r \<noteq> None)
         \<and> (ride.driverId r \<noteq> None \<longrightarrow>
              ride.status r \<in> set [''matched'', ''en-route'', ''arrived'', ''in-progress'',
                                   ''completed'', ''cancelled''])"
  using reachable_inv [OF assms] by (auto simp: validStatuses_def)

theorem driverId_by_state_witness:
  "reachable requested_store \<and> rides requested_store = [example_ride]
   \<and> ride.status example_ride = ''requested'' \<and> ride.driverId example_ride = None
   \<and> reachable matched_store
   \<and> ride_state matched_store ''r1'' = Some (''matched'', Some ''d1'')"
proof -
  have s: "ride.status example_ride = ''requested''" by (simp add: example_ride_def)
  have "example_ride \<in> set (rides requested_store)" by (simp add: requested_store_rides)
  from driverId_by_state [OF reachable_examples(2) this] s
  have "ride.driverId example_ride = None" by simp
  moreover have "ride_state matched_store ''r1'' = Some (''matched'', Some ''d1'')"
    by (simp add: ride_state_def matched_store_rides dbGet_ride_def example_ride_def)
  ultimately show ?thesis using s reachable_examples requested_store_rides by simp
qed

subsection \<open>The changes of a ride's state\<close>








lemma request_steps_sequential:
  "(request_step now uuid ^^ 3) (request_begin decode h req, st)
     = (RequestReturned (snd (requestRide decode now uuid h req st)),
        fst (requestRide decode now uuid h req st))"
  by (simp add: eval_nat_numeral request_begin_def requestRide_def Let_def
        split: option.splits sum.splits prod.splits)

lemma update_steps_sequential:
  "(update_step now ^^ 4) (update_begin decode h rid upd, st)
     = (UpdateReturned (snd (updateRideStatus decode now h rid upd st)),
        fst (updateRideStatus decode now h rid upd st))"
  by (simp add: eval_nat_numeral update_begin_def updateRideStatus_def Let_def
        split: option.splits)


















subsection \<open>A second request of the same rider\<close>

lemma reachable_not_active:
  assumes "reachable st"
  shows "query_UserRidesIndex (rides st) uid ''active'' = []"
proof -
  have "ride.status r \<noteq> ''active''" if "r \<in> set (rides st)" for r
    using reachable_inv [OF assms that] by (auto simp: validStatuses_def)
  then show ?thesis by (auto simp: query_UserRidesIndex_def filter_empty_conv)
qed

lemma requestRide_created:
  assumes "caller decode h = Some uid" "validate_ride b = Inr v"
    "query_UserRidesIndex (rides st) uid ''active'' = []"
  shows "statusCode (snd (requestRide decode now uuid h (Some b) st)) = 201"
    and "\<exists>r. dbGet_ride (rides (fst (requestRide decode now uuid h (Some b) st))) uuid = Some r
             \<and> ride.userId r = uid \<and> ride.status r = ''requested'' \<and> ride.driverId r = None"
  using assms
  by (auto simp: requestRide_def createResponse_def publishEvent_def Let_def dbGet_dbPut_ride
        split: prod.splits)

text \<open>
  C4. The claim: a rider with a ride in a non-terminal state is refused (409) and no ride
  is created. The code looks for rides of the rider whose status is \<open>active\<close>, a status
  no handler writes: in every reachable store the query is empty, every valid request of
  an authenticated caller is answered 201 and a new requested ride is stored. The witness
  is the rider \<open>u1\<close> who requests a second ride while \<open>r1\<close> is requested.
\<close>

theorem requestRide_never_finds_active_ride:
  assumes "reachable st" and "caller decode h = Some uid" and "validate_ride b = Inr v"
  shows "query_UserRidesIndex (rides st) uid ''active'' = []
         \<and> statusCode (snd (requestRide decode now uuid h (Some b) st)) = 201
         \<and> ride_state (fst (requestRide decode now uuid h (Some b) st)) uuid
             = Some (''requested'', None)"
  using requestRide_created [OF assms(2,3) reachable_not_active [OF assms(1)], of now uuid]
    reachable_not_active [OF assms(1), of uid]
  by (auto simp: ride_state_def)

theorem requestRide_never_finds_active_ride_witness:
  "ride_state requested_store ''r1'' = Some (''requested'', None)
   \<and> map ride.userId (rides requested_store) = [''u1'']
   \<and> statusCode (snd (requestRide example_decode ''09:01'' ''r2'' (Some ''Bearer unsigned.u1'')
                        (Some example_request) requested_store)) = 201
   \<and> ride_state (fst (requestRide example_decode ''09:01'' ''r2'' (Some ''Bearer unsigned.u1'')
                        (Some example_request) requested_store)) ''r2''
       = Some (''requested'', None)
   \<and> ride_state (fst (requestRide example_decode ''09:01'' ''r2'' (Some ''Bearer unsigned.u1'')
                        (Some example_request) requested_store)) ''r1''
       = Some (''requested'', None)
   \<and> map ride.userId (rides (fst (requestRide example_decode ''09:01'' ''r2''
                        (Some ''Bearer unsigned.u1'') (Some example_request) requested_store)))
       = [''u1'', ''u1'']"
proof -
  note t = requestRide_never_finds_active_ride
             [OF reachable_examples(2) caller_u1 validate_example, of "''09:01''" "''r2''"]
  have "rides (fst (requestRide example_decode ''09:01'' ''r2'' (Some ''Bearer unsigned.u1'')
                        (Some example_request) requested_store))
        = dbPut_ride [example_ride]
            (example_ride\<lparr>rideId := ''r2'', ride.createdAt := ''09:01''\<rparr>)"
    using t
    by (simp add: requestRide_def caller_u1 validate_example requested_store_rides
          publishEvent_def Let_def example_ride_def)
  then have "rides (fst (requestRide example_decode ''09:01'' ''r2'' (Some ''Bearer unsigned.u1'')
                        (Some example_request) requested_store))
        = [example_ride, example_ride\<lparr>rideId := ''r2'', ride.createdAt := ''09:01''\<rparr>]"
    by (simp add: dbPut_ride_def dbGet_ride_def example_ride_def)
  then show ?thesis
    using t by (simp add: ride_state_def requested_store_rides dbGet_ride_def example_ride_def)
qed

subsection \<open>The identity of the caller\<close>

lemma replace_first_Bearer: "replace_first ''Bearer '' [] (''Bearer '' @ token) = token"
  by simp

text \<open>
  C9. The caller of \<open>requestRide\<close>, \<open>acceptRide\<close> and \<open>updateRideStatus\<close> is the \<open>sub\<close> of
  the decoded payload: whenever \<open>jwt.decode\<close> yields a payload with a non-empty \<open>sub = u\<close>,
  whatever its issuer, audience and expiry are, \<open>validateToken\<close> accepts it and the handlers
  act for \<open>u\<close>: the ride requested belongs to \<open>u\<close>, the ride accepted gets the driver \<open>u\<close>,
  and \<open>updateRideStatus\<close> answers 403 exactly when \<open>u\<close> is neither rider nor driver.
\<close>

theorem caller_is_decoded_sub:
  assumes "decode token = Some p" and "sub p = Some u" and "u \<noteq> []"
  shows "validateToken decode token = Some p
         \<and> caller decode (Some (''Bearer '' @ token)) = Some u
         \<and> (validate_ride b = Inr v \<and> query_UserRidesIndex (rides st) u ''active'' = []
            \<longrightarrow> (\<exists>r. dbGet_ride (rides (fst (requestRide decode now uuid
                          (Some (''Bearer '' @ token)) (Some b) st))) uuid = Some r
                     \<and> ride.userId r = u))
         \<and> (dbGet_ride (rides st) rid = Some r \<and> ride.status r = ''requested''
             \<and> dbGet_driver (drivers st) u = Some d \<and> driver.status d = ''available''
            \<longrightarrow> ride_state (fst (acceptRide decode now (Some (''Bearer '' @ token)) rid st)) rid
                  = Some (''matched'', Some u))
         \<and> (dbGet_ride (rides st) rid = Some r \<and> s \<in> set validStatuses
            \<longrightarrow> (statusCode (snd (updateRideStatus decode now (Some (''Bearer '' @ token)) rid
                                    (Some \<lparr>new_status = s, new_location = loc\<rparr>) st)) = 403)
                  = (ride.userId r \<noteq> u \<and> ride.driverId r \<noteq> Some u))"
proof -
  have v: "validateToken decode token = Some p"
    using assms by (simp add: validateToken_def)
  have c: "caller decode (Some (''Bearer '' @ token)) = Some u"
    unfolding caller_def option.case replace_first_Bearer v using assms(2) by simp
  have rq: "\<exists>r. dbGet_ride (rides (fst (requestRide decode now uuid
                          (Some (''Bearer '' @ token)) (Some b) st))) uuid = Some r
                     \<and> ride.userId r = u"
    if "validate_ride b = Inr v \<and> query_UserRidesIndex (rides st) u ''active'' = []"
    using requestRide_created(2) [OF c, of b v st now uuid] that by blast
  have ac: "ride_state (fst (acceptRide decode now (Some (''Bearer '' @ token)) rid st)) rid
                  = Some (''matched'', Some u)"
    if "dbGet_ride (rides st) rid = Some r \<and> ride.status r = ''requested''
             \<and> dbGet_driver (drivers st) u = Some d \<and> driver.status d = ''available''"
    using that c
    by (simp add: acceptRide_def publishEvent_def Let_def ride_state_def dbGet_dbUpdate_ride)
  have up: "(statusCode (snd (updateRideStatus decode now (Some (''Bearer '' @ token)) rid
                                    (Some \<lparr>new_status = s, new_location = loc\<rparr>) st)) = 403)
                  = (ride.userId r \<noteq> u \<and> ride.driverId r \<noteq> Some u)"
    if "dbGet_ride (rides st) rid = Some r \<and> s \<in> set validStatuses"
    using that c
    by (auto simp: updateRideStatus_def createResponse_def internal_error_def Let_def
          split: option.splits)
  from v c rq ac up show ?thesis by blast
qed

theorem caller_is_decoded_sub_witness:
  "example_decode ''unsigned.d1'' = Some \<lparr>sub = Some ''d1'', iss = None, aud = None, exp = Some 0\<rparr>
   \<and> validateToken example_decode ''unsigned.d1''
       = Some \<lparr>sub = Some ''d1'', iss = None, aud = None, exp = Some 0\<rparr>
   \<and> caller example_decode (Some ''Bearer unsigned.d1'') = Some ''d1''
   \<and> ride_state requested_store ''r1'' = Some (''requested'', None)
   \<and> ride_state (fst (acceptRide example_decode ''09:01'' (Some ''Bearer unsigned.d1'') ''r1''
                        requested_store)) ''r1''
       = Some (''matched'', Some ''d1'')"
proof -
  let ?p = "\<lparr>sub = Some ''d1'', iss = None, aud = None, exp = Some 0\<rparr>"
  let ?d = "example_driver ''d1'' ''D1234567'' ''available'' 37.777 (-122.415)"
  have e: "example_decode ''unsigned.d1'' = Some ?p" by (simp add: example_decode_def)
  have h: "dbGet_ride (rides requested_store) ''r1'' = Some example_ride
           \<and> ride.status example_ride = ''requested''
           \<and> dbGet_driver (drivers requested_store) ''d1'' = Some ?d
           \<and> driver.status ?d = ''available''"
    by (simp add: requested_store_rides requested_store_drivers idle_store_def dbGet_ride_def
          dbGet_driver_def example_ride_def example_driver_def)
  from caller_is_decoded_sub [of example_decode "''unsigned.d1''" ?p "''d1''" _ _ requested_store
         "''09:01''" _ "''r1''" example_ride ?d, OF e] h
  have "validateToken example_decode ''unsigned.d1'' = Some ?p
        \<and> caller example_decode (Some (''Bearer '' @ ''unsigned.d1'')) = Some ''d1''
        \<and> ride_state (fst (acceptRide example_decode ''09:01''
                             (Some (''Bearer '' @ ''unsigned.d1'')) ''r1'' requested_store)) ''r1''
            = Some (''matched'', Some ''d1'')"
    by simp
  moreover have "ride_state requested_store ''r1'' = Some (''requested'', None)"
    by (simp add: ride_state_def requested_store_rides dbGet_ride_def example_ride_def)
  ultimately show ?thesis
    using e by simp
qed

subsection \<open>Two drivers accept the same ride\<close>

lemma accept_steps_sequential:
  "(accept_step now ^^ 5) (accept_begin decode h rid, st)
     = (Returned (snd (acceptRide decode now h rid st)), fst (acceptRide decode now h rid st))"
  by (simp add: eval_nat_numeral accept_begin_def acceptRide_def Let_def
        split: option.splits)

lemma caller_d2: "caller example_decode (Some ''Bearer unsigned.d2'') = Some ''d2''"
  using caller_unsigned [of "''d2''"] by simp

lemma racing_calls_eq: "racing_calls = [GetRide ''d1'' ''r1'', GetRide ''d2'' ''r1'']"
  by (simp add: racing_calls_def accept_begin_def caller_d1 caller_d2)

lemma requested_store_eq:
  "requested_store = idle_store\<lparr>rides := [example_ride],
     events := [RideRequested ''r1'' ''u1'' (pickupLocation example_ride) ''standard''
                  (estimatedFare example_ride)]\<rparr>"
  by (simp add: requested_store_def requestRide_def caller_u1 validate_example idle_store_def
        query_UserRidesIndex_def Let_def dbPut_ride_def dbGet_ride_def publishEvent_def
        example_ride_def)

lemmas race_eval =
  run_schedule_def schedule_step_def racing_calls_eq requested_store_eq idle_store_def
  dbGet_ride_def dbGet_driver_def dbUpdate_ride_def dbUpdate_driver_def publishEvent_def
  example_ride_def example_driver_def createResponse_def returned_status_def ride_state_def
  driver_status_def

lemma interleaved_run:
  "map returned_status (fst (run_schedule ''09:01'' interleaved (racing_calls, requested_store)))
     = [Some 200, Some 200]"
  "ride_state (snd (run_schedule ''09:01'' interleaved (racing_calls, requested_store))) ''r1''
     = Some (''matched'', Some ''d2'')"
  "driver_status (snd (run_schedule ''09:01'' interleaved (racing_calls, requested_store))) ''d1''
     = Some ''busy''"
  "driver_status (snd (run_schedule ''09:01'' interleaved (racing_calls, requested_store))) ''d2''
     = Some ''busy''"
  by (simp_all add: interleaved_def race_eval)

lemma sequential_run:
  "map returned_status
     (fst (run_schedule ''09:01'' one_after_the_other (racing_calls, requested_store)))
     = [Some 200, Some 409]"
  "ride_state (snd (run_schedule ''09:01'' one_after_the_other (racing_calls, requested_store)))
     ''r1'' = Some (''matched'', Some ''d1'')"
  "driver_status (snd (run_schedule ''09:01'' one_after_the_other (racing_calls, requested_store)))
     ''d2'' = Some ''available''"
  by (simp_all add: one_after_the_other_def race_eval)

lemma acceptRide_after_match:
  assumes "caller decode h = Some did" and "dbGet_ride (rides st) rid = Some r"
    and "ride.status r \<noteq> ''requested''"
  shows "acceptRide decode now h rid st
           = (st, createResponse 409 (ErrorBody ''Ride is no longer available''))"
  using assms by (simp add: acceptRide_def)

text \<open>
  C1. The claim: of the concurrent calls of \<open>acceptRide\<close> for a requested ride by
  distinct available drivers exactly one succeeds, the others are refused, the ride's
  \<open>driverId\<close> is the winner's, and a loser's availability is unchanged. The code reads
  the ride, checks its status and updates it in separate awaited operations with no
  condition on the update. When the calls of \<open>d1\<close> and \<open>d2\<close> take turns, both read the
  ride as requested, both are answered 200, the ride keeps the driver written last, and
  both drivers are busy. (One call after the other, the second is answered 409 and \<open>d2\<close>
  stays available: \<open>sequential_run\<close>.)
\<close>

theorem concurrent_accepts_both_succeed:
  "ride_state requested_store ''r1'' = Some (''requested'', None)
   \<and> driver_status requested_store ''d1'' = Some ''available''
   \<and> driver_status requested_store ''d2'' = Some ''available''
   \<and> map returned_status
         (fst (run_schedule ''09:01'' interleaved (racing_calls, requested_store)))
       = [Some 200, Some 200]
   \<and> ride_state (snd (run_schedule ''09:01'' interleaved (racing_calls, requested_store))) ''r1''
       = Some (''matched'', Some ''d2'')
   \<and> driver_status (snd (run_schedule ''09:01'' interleaved (racing_calls, requested_store)))
         ''d1'' = Some ''busy''
   \<and> driver_status (snd (run_schedule ''09:01'' interleaved (racing_calls, requested_store)))
         ''d2'' = Some ''busy''"
proof -
  have "ride_state requested_store ''r1'' = Some (''requested'', None)"
    "driver_status requested_store ''d1'' = Some ''available''"
    "driver_status requested_store ''d2'' = Some ''available''"
    by (simp_all add: race_eval)
  with interleaved_run show ?thesis by (intro conjI)
qed

subsection \<open>The posts of a fanout\<close>

lemma dbGet_connection_member:
  "c \<in> set tbl \<Longrightarrow> dbGet_connection tbl (connectionId c) \<noteq> None"
  by (auto simp: dbGet_connection_def find_None_iff)

lemma mark_gone_empty [simp]: "mark_gone now {} tbl = tbl"
  by (simp add: mark_gone_def)

lemma mark_gone_twice: "mark_gone now G (mark_gone now H tbl) = mark_gone now (H \<union> G) tbl"
  by (auto simp: mark_gone_def)

lemma map_connectionId_mark_gone [simp]:
  "map connectionId (mark_gone now G tbl) = map connectionId tbl"
  by (simp add: mark_gone_def)

lemma dbGet_connection_None:
  "dbGet_connection tbl k = None \<longleftrightarrow> k \<notin> set (map connectionId tbl)"
  by (auto simp: dbGet_connection_def find_None_iff)

lemma dbGet_connection_mark_gone:
  "dbGet_connection (mark_gone now G tbl) k = None \<longleftrightarrow> dbGet_connection tbl k = None"
  unfolding dbGet_connection_None by simp

lemma dbUpdate_connection_present:
  "dbGet_connection tbl k \<noteq> None \<Longrightarrow>
     dbUpdate_connection tbl k (\<lambda>c. c\<lparr>disconnectedAt := Some now\<rparr>) = mark_gone now {k} tbl"
  by (auto simp: dbUpdate_connection_def mark_gone_def)

lemma sendMessageToConnection_present:
  assumes "dbGet_connection tbl k \<noteq> None"
  shows "sendMessageToConnection push now k msg (tbl, posts)
           = (mark_gone now (if push k = Gone then {k} else {}) tbl, posts @ [(k, msg)])"
  using assms
  by (auto simp: sendMessageToConnection_def dbUpdate_connection_present split: push_result.splits)

lemma send_loop:
  assumes "\<forall>c \<in> set cs. dbGet_connection tbl (connectionId c) \<noteq> None"
  shows "fold (\<lambda>c. sendMessageToConnection push now (connectionId c) msg) cs (tbl, posts)
           = (mark_gone now {k \<in> connectionId ` set cs. push k = Gone} tbl,
              posts @ map (\<lambda>c. (connectionId c, msg)) cs)"
  using assms
proof (induction cs arbitrary: tbl posts)
  case Nil
  then show ?case by simp
next
  case (Cons c cs)
  let ?G = "if push (connectionId c) = Gone then {connectionId c} else {}"
  have 1: "\<forall>x \<in> set cs. dbGet_connection (mark_gone now ?G tbl) (connectionId x) \<noteq> None"
    using Cons.prems by (simp only: dbGet_connection_mark_gone) simp
  have 2: "?G \<union> {k \<in> connectionId ` set cs. push k = Gone}
             = {k \<in> connectionId ` set (c # cs). push k = Gone}"
    by auto
  have 3: "dbGet_connection tbl (connectionId c) \<noteq> None"
    using Cons.prems by simp
  have "fold (\<lambda>c. sendMessageToConnection push now (connectionId c) msg) (c # cs) (tbl, posts)
      = fold (\<lambda>c. sendMessageToConnection push now (connectionId c) msg) cs
          (mark_gone now ?G tbl, posts @ [(connectionId c, msg)])"
    by (simp only: fold_simps sendMessageToConnection_present [OF 3])
  also have "\<dots> = (mark_gone now {k \<in> connectionId ` set cs. push k = Gone}
                      (mark_gone now ?G tbl),
                    (posts @ [(connectionId c, msg)]) @ map (\<lambda>c. (connectionId c, msg)) cs)"
    by (rule Cons.IH [OF 1])
  also have "\<dots> = (mark_gone now {k \<in> connectionId ` set (c # cs). push k = Gone} tbl,
                    posts @ map (\<lambda>c. (connectionId c, msg)) (c # cs))"
    unfolding mark_gone_twice 2 by simp
  finally show ?case .
qed

lemma getUserConnections_mark_gone:
  "getUserConnections (mark_gone now G tbl) t
     = filter (\<lambda>c. connectionId c \<notin> G) (getUserConnections tbl t)"
proof (cases t)
  case None
  then show ?thesis by (simp add: getUserConnections_def)
next
  case (Some u)
  have "filter (\<lambda>c. connection.userId c = Some u \<and> disconnectedAt c = None) (mark_gone now G xs)
      = filter (\<lambda>c. connectionId c \<notin> G)
          (filter (\<lambda>c. connection.userId c = Some u \<and> disconnectedAt c = None) xs)" for xs
    by (induction xs) (auto simp: mark_gone_def)
  with Some show ?thesis by (simp add: getUserConnections_def)
qed

lemma getUserConnections_subset: "set (getUserConnections tbl t) \<subseteq> set tbl"
  by (cases t) (auto simp: getUserConnections_def)

lemma send_to_targets_posts:
  "set (snd (send_to_targets push now msg ts (tbl, posts)))
     = set posts \<union> (\<lambda>c. (connectionId c, msg)) ` (\<Union>t \<in> set ts. set (getUserConnections tbl t))"
proof (induction ts arbitrary: tbl posts)
  case Nil
  then show ?case by (simp add: send_to_targets_def)
next
  case (Cons t ts)
  define post where "post = (\<lambda>c :: connection. (connectionId c, msg))"
  define L where "L = getUserConnections tbl t"
  define G where "G = {k \<in> connectionId ` set L. push k = Gone}"
  define B where "B = (\<lambda>t'. set (getUserConnections tbl t'))"
  define F where "F = (\<lambda>t'. set (filter (\<lambda>c. connectionId c \<notin> G) (getUserConnections tbl t')))"
  have ex: "\<forall>c \<in> set L. dbGet_connection tbl (connectionId c) \<noteq> None"
    unfolding L_def using getUserConnections_subset [of tbl t] dbGet_connection_member by blast
  have step: "send_to_targets push now msg (t # ts) (tbl, posts)
      = send_to_targets push now msg ts (mark_gone now G tbl, posts @ map post L)"
    using send_loop [OF ex, of push now msg posts]
    by (simp add: send_to_targets_def L_def G_def post_def)
  have "set (snd (send_to_targets push now msg (t # ts) (tbl, posts)))
      = set (posts @ map post L)
        \<union> post ` (\<Union>t \<in> set ts. set (getUserConnections (mark_gone now G tbl) t))"
    unfolding step post_def by (rule Cons.IH)
  then have eq: "set (snd (send_to_targets push now msg (t # ts) (tbl, posts)))
      = set posts \<union> post ` set L \<union> post ` (\<Union>t' \<in> set ts. F t')"
    by (simp add: getUserConnections_mark_gone F_def)
  have 1: "F t' \<subseteq> B t'" for t' by (auto simp: F_def B_def)
  have 2: "post ` B t' \<subseteq> post ` set L \<union> post ` F t'" for t'
  proof
    fix x assume "x \<in> post ` B t'"
    then obtain c where c: "c \<in> B t'" "x = post c" by auto
    show "x \<in> post ` set L \<union> post ` F t'"
    proof (cases "connectionId c \<in> G")
      case True
      then obtain c1 where c1: "c1 \<in> set L" "connectionId c1 = connectionId c"
        by (auto simp: G_def)
      have "post c \<in> post ` set L"
        by (rule image_eqI [where x = c1]) (simp_all add: c1 post_def)
      with c show ?thesis by simp
    next
      case False
      with c have "c \<in> F t'" by (simp add: F_def B_def)
      with c show ?thesis by blast
    qed
  qed
  have "post ` set L \<union> post ` (\<Union>t' \<in> set ts. F t')
      = post ` (\<Union>t' \<in> set (t # ts). B t')"
  proof
    show "post ` set L \<union> post ` (\<Union>t' \<in> set ts. F t') \<subseteq> post ` (\<Union>t' \<in> set (t # ts). B t')"
      using 1 by (auto simp: B_def L_def)
    show "post ` (\<Union>t' \<in> set (t # ts). B t') \<subseteq> post ` set L \<union> post ` (\<Union>t' \<in> set ts. F t')"
    proof
      fix x assume "x \<in> post ` (\<Union>t' \<in> set (t # ts). B t')"
      then obtain t' where t': "t' \<in> set (t # ts)" "x \<in> post ` B t'" by auto
      show "x \<in> post ` set L \<union> post ` (\<Union>t' \<in> set ts. F t')"
      proof (cases "t' = t")
        case True
        with t' show ?thesis by (simp add: B_def L_def)
      next
        case False
        with t' have "t' \<in> set ts" by simp
        with 2 [of t'] t'(2) show ?thesis by blast
      qed
    qed
  qed
  with eq show ?case unfolding post_def B_def by (simp add: Un_assoc)
qed

lemma set_getUserConnections:
  "set (getUserConnections tbl t)
     = {c \<in> set tbl. disconnectedAt c = None \<and> connection.userId c = t \<and> t \<noteq> None}"
  by (cases t) (auto simp: getUserConnections_def)

lemma set_live_connection_ids:
  "set (live_connection_ids tbl P)
     = connectionId ` {c \<in> set tbl. disconnectedAt c = None
                         \<and> (\<exists>u. connection.userId c = Some u \<and> P u)}"
  by (auto simp: live_connection_ids_def split: option.splits)

lemma ws_store_rides:
  "rides ws_store =
     [example_ride\<lparr>ride.driverId := Some ''d1'', ride.status := ''matched'',
                   matchedAt := Some ''09:01''\<rparr>]"
  by (simp add: ws_store_def matched_store_rides)

lemma ws_store_connections:
  "connections ws_store =
       [example_connection ''c1'' ''u1'' ''rider'' None,
        example_connection ''c2'' ''d1'' ''driver'' None,
        example_connection ''c3'' ''d1'' ''driver'' (Some ''08:58''),
        example_connection ''c4'' ''u2'' ''rider'' None]"
  by (simp add: ws_store_def)

text \<open>
  C7, as claimed: for a \<open>location_update\<close> and for a \<open>ride_status_update\<close> the event goes
  to every live connection of each target and the sender never receives its own echo. The
  rider \<open>u1\<close> sends a \<open>ride_status_update\<close> for the ride \<open>r1\<close> over the connection \<open>c1\<close>:
  the event is posted to \<open>c1\<close> itself and to the driver's live connection \<open>c2\<close>.
\<close>

theorem status_update_echo_counterexample:
  "dbGet_connection (connections ws_store) ''c1''
     = Some (example_connection ''c1'' ''u1'' ''rider'' None)
   \<and> ride_state ws_store ''r1'' = Some (''matched'', Some ''d1'')
   \<and> map ride.userId (rides ws_store) = [''u1'']
   \<and> fst (snd (message always_delivered ''09:10'' ''c1''
                 (Some \<lparr>action = ''ride_status_update'', data = Some status_data\<rparr>) ws_store))
       = [(''c1'', RideStatusOut ''r1'' (Some ''arrived'') None ''09:10''),
          (''c2'', RideStatusOut ''r1'' (Some ''arrived'') None ''09:10'')]"
  by (simp add: message_def handleRideStatusUpdate_def send_to_targets_def
        sendMessageToConnection_def getUserConnections_def dbUpdate_connection_def
        dbGet_connection_def dbGet_ride_def ws_store_rides ws_store_connections
        example_connection_def always_delivered_def status_data_def example_ride_def
        ride_state_def Let_def)

text \<open>
  C7, amended: for a \<open>location_update\<close> of a ride the event is posted to the live
  connections of the rider and of the driver of the ride, except those of the user named
  in the \<open>userId\<close> of the message, and to no other connection; for a
  \<open>ride_status_update\<close> it is posted to the live connections of both the rider and the
  driver, the sender's among them, and to no other connection.
\<close>

theorem fanout_targets:
  "(data_rideId d = Some rid \<and> rid \<noteq> [] \<and> dbGet_ride rideTbl rid = Some r
      \<longrightarrow> set (snd (handleLocationUpdate push now rideTbl cid d (tbl, [])))
           = (\<lambda>i. (i, LocationUpdateOut rid (data_userId d) (data_location d) now))
               ` set (live_connection_ids tbl (\<lambda>u. party r u \<and> Some u \<noteq> data_userId d)))
   \<and> (data_rideId d = Some rid \<and> dbGet_ride rideTbl rid = Some r
      \<longrightarrow> set (snd (handleRideStatusUpdate push now rideTbl cid d (tbl, [])))
           = (\<lambda>i. (i, RideStatusOut rid (data_status d) (data_message d) now))
               ` set (live_connection_ids tbl (party r)))"
proof (intro conjI impI)
  assume a: "data_rideId d = Some rid \<and> rid \<noteq> [] \<and> dbGet_ride rideTbl rid = Some r"
  let ?msg = "LocationUpdateOut rid (data_userId d) (data_location d) now"
  let ?ts = "filter (\<lambda>i. i \<noteq> data_userId d) [Some (ride.userId r), ride.driverId r]"
  have "snd (handleLocationUpdate push now rideTbl cid d (tbl, []))
          = snd (send_to_targets push now ?msg ?ts (tbl, []))"
    using a by (simp add: handleLocationUpdate_def Let_def)
  then have "set (snd (handleLocationUpdate push now rideTbl cid d (tbl, [])))
          = (\<lambda>c. (connectionId c, ?msg)) ` (\<Union>t \<in> set ?ts. set (getUserConnections tbl t))"
    by (simp only: send_to_targets_posts) simp
  also have "(\<Union>t \<in> set ?ts. set (getUserConnections tbl t))
          = {c \<in> set tbl. disconnectedAt c = None
               \<and> (\<exists>u. connection.userId c = Some u \<and> party r u \<and> Some u \<noteq> data_userId d)}"
    by (auto simp: set_getUserConnections party_def)
  finally show "set (snd (handleLocationUpdate push now rideTbl cid d (tbl, [])))
           = (\<lambda>i. (i, ?msg))
               ` set (live_connection_ids tbl (\<lambda>u. party r u \<and> Some u \<noteq> data_userId d))"
    by (simp add: set_live_connection_ids image_image)
next
  assume a: "data_rideId d = Some rid \<and> dbGet_ride rideTbl rid = Some r"
  let ?msg = "RideStatusOut rid (data_status d) (data_message d) now"
  let ?ts = "[Some (ride.userId r), ride.driverId r]"
  have "snd (handleRideStatusUpdate push now rideTbl cid d (tbl, []))
          = snd (send_to_targets push now ?msg ?ts (tbl, []))"
    using a by (simp add: handleRideStatusUpdate_def Let_def)
  then have "set (snd (handleRideStatusUpdate push now rideTbl cid d (tbl, [])))
          = (\<lambda>c. (connectionId c, ?msg)) ` (\<Union>t \<in> set ?ts. set (getUserConnections tbl t))"
    by (simp only: send_to_targets_posts) simp
  also have "(\<Union>t \<in> set ?ts. set (getUserConnections tbl t))
          = {c \<in> set tbl. disconnectedAt c = None
               \<and> (\<exists>u. connection.userId c = Some u \<and> party r u)}"
    by (auto simp: set_getUserConnections party_def)
  finally show "set (snd (handleRideStatusUpdate push now rideTbl cid d (tbl, [])))
           = (\<lambda>i. (i, ?msg)) ` set (live_connection_ids tbl (party r))"
    by (simp add: set_live_connection_ids image_image)
qed

theorem fanout_targets_witness:
  "set (snd (handleLocationUpdate always_delivered ''09:10'' (rides ws_store) ''c2''
               location_data (connections ws_store, [])))
     = {(''c1'', LocationUpdateOut ''r1'' (Some ''d1'')
                   (Some \<lparr>lat = 37.776, lng = -122.415\<rparr>) ''09:10'')}
   \<and> set (snd (handleRideStatusUpdate always_delivered ''09:10'' (rides ws_store) ''c1''
               status_data (connections ws_store, [])))
     = {(''c1'', RideStatusOut ''r1'' (Some ''arrived'') None ''09:10''),
        (''c2'', RideStatusOut ''r1'' (Some ''arrived'') None ''09:10'')}"
proof -
  let ?r = "example_ride\<lparr>ride.driverId := Some ''d1'', ride.status := ''matched'',
                   matchedAt := Some ''09:01''\<rparr>"
  have g: "dbGet_ride (rides ws_store) ''r1'' = Some ?r"
    by (simp add: ws_store_rides dbGet_ride_def example_ride_def)
  have l: "data_rideId location_data = Some ''r1'' \<and> ''r1'' \<noteq> []
           \<and> dbGet_ride (rides ws_store) ''r1'' = Some ?r"
    using g by (simp add: location_data_def)
  have s: "data_rideId status_data = Some ''r1'' \<and> dbGet_ride (rides ws_store) ''r1'' = Some ?r"
    using g by (simp add: status_data_def)
  have 1: "live_connection_ids (connections ws_store)
             (\<lambda>u. party ?r u \<and> Some u \<noteq> data_userId location_data) = [''c1'']"
    by (simp add: live_connection_ids_def ws_store_connections example_connection_def party_def
          location_data_def example_ride_def)
  have 2: "live_connection_ids (connections ws_store) (party ?r) = [''c1'', ''c2'']"
    by (simp add: live_connection_ids_def ws_store_connections example_connection_def party_def
          example_ride_def)
  from fanout_targets [of location_data "''r1''" "rides ws_store" ?r always_delivered "''09:10''"
         "''c2''" "connections ws_store"] l
  have a: "set (snd (handleLocationUpdate always_delivered ''09:10'' (rides ws_store) ''c2''
               location_data (connections ws_store, [])))
         = (\<lambda>i. (i, LocationUpdateOut ''r1'' (data_userId location_data)
                        (data_location location_data) ''09:10'')) ` set [''c1'']"
    unfolding 1 by blast
  from fanout_targets [of status_data "''r1''" "rides ws_store" ?r always_delivered "''09:10''"
         "''c1''" "connections ws_store"] s
  have b: "set (snd (handleRideStatusUpdate always_delivered ''09:10'' (rides ws_store) ''c1''
               status_data (connections ws_store, [])))
         = (\<lambda>i. (i, RideStatusOut ''r1'' (data_status status_data)
                        (data_message status_data) ''09:10'')) ` set [''c1'', ''c2'']"
    unfolding 2 by blast
  show ?thesis
    unfolding a b by (simp add: location_data_def status_data_def)
qed

subsection \<open>Disconnecting twice\<close>

lemma dbGet_dbUpdate_connection_same:
  assumes "\<And>c. connectionId (f c) = connectionId c"
  shows "dbGet_connection (dbUpdate_connection tbl k f) k \<noteq> None"
proof (cases "dbGet_connection tbl k")
  case None
  then have "dbUpdate_connection tbl k f
               = tbl @ [f \<lparr>connectionId = k, userId = None, userType = None,
                           connectedAt = None, lastActivity = None, disconnectedAt = None\<rparr>]"
    by (simp add: dbUpdate_connection_def)
  then show ?thesis
    by (simp add: dbGet_connection_None assms)
next
  case (Some a)
  then have "k \<in> set (map connectionId tbl)"
    using dbGet_connection_None [of tbl k] by simp
  then have "k \<in> set (map connectionId (map (\<lambda>c. if connectionId c = k then f c else c) tbl))"
    by (auto simp: assms image_iff)
  with Some show ?thesis
    by (simp add: dbUpdate_connection_def dbGet_connection_None del: set_map map_map)
qed

lemma disconnected_after_update:
  assumes "c \<in> set (dbUpdate_connection tbl k (\<lambda>c. c\<lparr>disconnectedAt := Some t\<rparr>))"
    and "connectionId c = k"
  shows "disconnectedAt c = Some t"
proof (cases "dbGet_connection tbl k")
  case None
  then have u: "dbUpdate_connection tbl k (\<lambda>c. c\<lparr>disconnectedAt := Some t\<rparr>)
               = tbl @ [\<lparr>connectionId = k, userId = None, userType = None,
                         connectedAt = None, lastActivity = None, disconnectedAt = Some t\<rparr>]"
    by (simp add: dbUpdate_connection_def)
  from None have "c \<notin> set tbl"
    using assms(2) dbGet_connection_member [of c tbl] by auto
  with assms(1) show ?thesis unfolding u by simp
next
  case (Some a)
  then have u: "dbUpdate_connection tbl k (\<lambda>c. c\<lparr>disconnectedAt := Some t\<rparr>)
               = map (\<lambda>c. if connectionId c = k then c\<lparr>disconnectedAt := Some t\<rparr> else c) tbl"
    by (simp add: dbUpdate_connection_def)
  from assms(1) obtain x where x: "x \<in> set tbl"
    "c = (if connectionId x = k then x\<lparr>disconnectedAt := Some t\<rparr> else x)"
    unfolding u by auto
  show ?thesis
  proof (cases "connectionId x = k")
    case True
    with x show ?thesis by simp
  next
    case False
    with x assms(2) show ?thesis by simp
  qed
qed

text \<open>
  C8, as claimed: a second \<open>disconnect\<close> of a connection id leaves the stored connection
  as the first call left it. The connection \<open>c1\<close> is disconnected at 10:00 and again at
  10:05: the second call overwrites \<open>disconnectedAt\<close>.
\<close>

theorem disconnect_twice_counterexample:
  "dbGet_connection (connections (fst (disconnect ''10:00'' ''c1'' ws_store))) ''c1''
     = Some (example_connection ''c1'' ''u1'' ''rider'' (Some ''10:00''))
   \<and> dbGet_connection
       (connections (fst (disconnect ''10:05'' ''c1'' (fst (disconnect ''10:00'' ''c1'' ws_store)))))
       ''c1''
     = Some (example_connection ''c1'' ''u1'' ''rider'' (Some ''10:05''))
   \<and> fst (disconnect ''10:05'' ''c1'' (fst (disconnect ''10:00'' ''c1'' ws_store)))
     \<noteq> fst (disconnect ''10:00'' ''c1'' ws_store)"
proof -
  have 1: "dbGet_connection (connections (fst (disconnect ''10:00'' ''c1'' ws_store))) ''c1''
     = Some (example_connection ''c1'' ''u1'' ''rider'' (Some ''10:00''))"
    by (simp add: disconnect_def dbUpdate_connection_def dbGet_connection_def
          ws_store_connections example_connection_def)
  have 2: "dbGet_connection
       (connections (fst (disconnect ''10:05'' ''c1'' (fst (disconnect ''10:00'' ''c1'' ws_store)))))
       ''c1''
     = Some (example_connection ''c1'' ''u1'' ''rider'' (Some ''10:05''))"
    by (simp add: disconnect_def dbUpdate_connection_def dbGet_connection_def
          ws_store_connections example_connection_def)
  have 3: "fst (disconnect ''10:05'' ''c1'' (fst (disconnect ''10:00'' ''c1'' ws_store)))
     \<noteq> fst (disconnect ''10:00'' ''c1'' ws_store)"
  proof
    assume "fst (disconnect ''10:05'' ''c1'' (fst (disconnect ''10:00'' ''c1'' ws_store)))
              = fst (disconnect ''10:00'' ''c1'' ws_store)"
    then have "example_connection ''c1'' ''u1'' ''rider'' (Some ''10:05'')
                 = example_connection ''c1'' ''u1'' ''rider'' (Some ''10:00'')"
      using 1 2 by simp
    then show False by (simp add: example_connection_def)
  qed
  from 1 2 3 show ?thesis by (intro conjI)
qed

text \<open>
  C8, amended: a second \<open>disconnect\<close> of a connection id answers 200 and changes nothing
  in the store but the \<open>disconnectedAt\<close> of that connection, which becomes the time of the
  second call (nothing changes when both calls have the same time); before and after it
  the live-connection lookup gives the same connections for every user, and never that
  connection.
\<close>

theorem disconnect_twice:
  "snd (disconnect t2 cid (fst (disconnect t1 cid st)))
     = createResponse 200 (MessageBody ''Disconnected successfully'')
   \<and> fst (disconnect t2 cid (fst (disconnect t1 cid st)))
     = (fst (disconnect t1 cid st))
         \<lparr>connections :=
            map (\<lambda>c. if connectionId c = cid then c\<lparr>disconnectedAt := Some t2\<rparr> else c)
                (connections (fst (disconnect t1 cid st)))\<rparr>
   \<and> getUserConnections (connections (fst (disconnect t2 cid (fst (disconnect t1 cid st))))) u
     = getUserConnections (connections (fst (disconnect t1 cid st))) u
   \<and> cid \<notin> set (map connectionId
                   (getUserConnections
                      (connections (fst (disconnect t2 cid (fst (disconnect t1 cid st))))) u))
   \<and> (t2 = t1 \<longrightarrow> fst (disconnect t2 cid (fst (disconnect t1 cid st)))
                    = fst (disconnect t1 cid st))"
proof -
  define tbl1 where "tbl1 = connections (fst (disconnect t1 cid st))"
  have t1: "tbl1 = dbUpdate_connection (connections st) cid (\<lambda>c. c\<lparr>disconnectedAt := Some t1\<rparr>)"
    by (simp add: tbl1_def disconnect_def)
  have s1: "fst (disconnect t1 cid st) = st\<lparr>connections := tbl1\<rparr>"
    by (simp add: disconnect_def tbl1_def)
  have present: "dbGet_connection tbl1 cid \<noteq> None"
    unfolding t1 by (rule dbGet_dbUpdate_connection_same) simp
  have marked: "disconnectedAt c = Some t1" if "c \<in> set tbl1" "connectionId c = cid" for c
    using that disconnected_after_update [of c "connections st" cid t1] unfolding t1 by simp
  have upd: "dbUpdate_connection tbl1 cid (\<lambda>c. c\<lparr>disconnectedAt := Some t2\<rparr>)
               = mark_gone t2 {cid} tbl1"
    by (rule dbUpdate_connection_present [OF present])
  have s2: "fst (disconnect t2 cid (fst (disconnect t1 cid st)))
              = st\<lparr>connections := mark_gone t2 {cid} tbl1\<rparr>"
    unfolding s1 by (simp add: disconnect_def upd)
  have r2: "snd (disconnect t2 cid (fst (disconnect t1 cid st)))
     = createResponse 200 (MessageBody ''Disconnected successfully'')"
    by (simp add: disconnect_def)
  have live: "connectionId c \<noteq> cid" if "c \<in> set (getUserConnections tbl1 u)" for c
    using that marked [of c] by (auto simp: set_getUserConnections)
  have g: "getUserConnections (mark_gone t2 {cid} tbl1) u = getUserConnections tbl1 u"
    unfolding getUserConnections_mark_gone using live by (auto intro: filter_True)
  have same: "mark_gone t1 {cid} tbl1 = tbl1"
    unfolding mark_gone_def using marked by (auto intro!: map_idI)
  have m: "mark_gone t2 {cid} tbl1
             = map (\<lambda>c. if connectionId c = cid then c\<lparr>disconnectedAt := Some t2\<rparr> else c) tbl1"
    by (simp add: mark_gone_def)
  have c2: "fst (disconnect t2 cid (fst (disconnect t1 cid st)))
     = (fst (disconnect t1 cid st))
         \<lparr>connections :=
            map (\<lambda>c. if connectionId c = cid then c\<lparr>disconnectedAt := Some t2\<rparr> else c)
                (connections (fst (disconnect t1 cid st)))\<rparr>"
    unfolding s2 m unfolding s1 by simp
  have c3: "getUserConnections (connections (fst (disconnect t2 cid (fst (disconnect t1 cid st))))) u
     = getUserConnections (connections (fst (disconnect t1 cid st))) u"
    unfolding s2 unfolding s1 by (simp add: g)
  have c4: "cid \<notin> set (map connectionId
                   (getUserConnections
                      (connections (fst (disconnect t2 cid (fst (disconnect t1 cid st))))) u))"
    unfolding c3 unfolding s1 using live by auto
  have c5: "t2 = t1 \<longrightarrow> fst (disconnect t2 cid (fst (disconnect t1 cid st)))
                    = fst (disconnect t1 cid st)"
    unfolding s2 unfolding s1 using same by auto
  from r2 c2 c3 c4 c5 show ?thesis by (intro conjI)
qed

theorem disconnect_twice_witness:
  "snd (disconnect ''10:05'' ''c1'' (fst (disconnect ''10:00'' ''c1'' ws_store)))
     = createResponse 200 (MessageBody ''Disconnected successfully'')
   \<and> getUserConnections (connections ws_store) (Some ''u1'')
     = [example_connection ''c1'' ''u1'' ''rider'' None]
   \<and> getUserConnections (connections (fst (disconnect ''10:00'' ''c1'' ws_store))) (Some ''u1'')
     = []
   \<and> getUserConnections
       (connections (fst (disconnect ''10:05'' ''c1'' (fst (disconnect ''10:00'' ''c1'' ws_store)))))
       (Some ''u1'')
     = []
   \<and> fst (disconnect ''10:00'' ''c1'' (fst (disconnect ''10:00'' ''c1'' ws_store)))
     = fst (disconnect ''10:00'' ''c1'' ws_store)"
proof -
  have 1: "getUserConnections (connections (fst (disconnect ''10:00'' ''c1'' ws_store)))
             (Some ''u1'') = []"
    by (simp add: disconnect_def dbUpdate_connection_def dbGet_connection_def
          getUserConnections_def ws_store_connections example_connection_def)
  have 0: "getUserConnections (connections ws_store) (Some ''u1'')
     = [example_connection ''c1'' ''u1'' ''rider'' None]"
    by (simp add: getUserConnections_def ws_store_connections example_connection_def)
  note A = disconnect_twice [of "''10:05''" "''c1''" "''10:00''" ws_store "Some ''u1''"]
  note B = disconnect_twice [of "''10:00''" "''c1''" "''10:00''" ws_store "Some ''u1''"]
  note a1 = A [THEN conjunct1]
  note a3 = A [THEN conjunct2, THEN conjunct2, THEN conjunct1]
  note b5 = B [THEN conjunct2, THEN conjunct2, THEN conjunct2, THEN conjunct2, THEN mp, OF refl]
  from a1 0 1 a3 [unfolded 1] b5 show ?thesis by (intro conjI)
qed

end
